theory Spec2Isabelle
  imports Complex_Main
begin

section \<open>Configuration: string comparison, option lists, parameter lists\<close>

text \<open>
  \<^verbatim>\<open>Util::compare\<close> (util.h) copies both strings, maps \<^verbatim>\<open>toupper\<close> over each and
  returns \<^verbatim>\<open>(t1 != t2)\<close>: 0 when the strings agree up to letter case, 1 otherwise.
  \<^verbatim>\<open>toupper\<close> is the C library function in the default "C" locale: the bytes
  \<^verbatim>\<open>'a'..'z'\<close> (97..122) move down by 32, every other byte is unchanged.
\<close>

definition toupper :: "char \<Rightarrow> char" where
  "toupper c =
     (let n = (of_char c :: nat)
      in if 97 \<le> n \<and> n \<le> 122 then char_of (n - 32) else c)"

definition compare :: "string \<Rightarrow> string \<Rightarrow> int" where
  "compare s1 s2 =
     (let t1 = map toupper s1; t2 = map toupper s2
      in if t1 \<noteq> t2 then 1 else 0)"

text \<open>
  \<^verbatim>\<open>Util::Option\<close>: the list of enumerator names and the integer the option writes to.
  \<^verbatim>\<open>getID\<close> walks the list from index 0 and returns the first index whose name
  compares equal; when the loop ends without a match it prints
  \<^verbatim>\<open>Unknown parameter : <str>\<close> on one line and returns 0. The model returns the index
  together with the lines printed.
\<close>

record Option =
  val :: nat
  list :: "string list"

fun getID_loop :: "string list \<Rightarrow> string \<Rightarrow> nat \<Rightarrow> nat option" where
  "getID_loop [] str i = None"
| "getID_loop (x # xs) str i =
     (if compare x str = 0 then Some i else getID_loop xs str (Suc i))"

definition getID :: "Option \<Rightarrow> string \<Rightarrow> nat \<times> string list" where
  "getID p str =
     (case getID_loop (list p) str 0 of
        Some i \<Rightarrow> (i, [])
      | None \<Rightarrow> (0, [''Unknown parameter : '' @ str]))"

text \<open>\<^verbatim>\<open>operator >> (istream&, Option&)\<close>: read one token, store its index.\<close>

definition read_Option :: "Option \<Rightarrow> string \<Rightarrow> Option \<times> string list" where
  "read_Option p str = (let (i, out) = getID p str in (p\<lparr>val := i\<rparr>, out))"




text \<open>
  The solver dispatch of \<^verbatim>\<open>main\<close> (solver.cpp, lines 67-75): the four names are tried
  in order with \<^verbatim>\<open>Util::compare\<close>, and the chain has no final \<^verbatim>\<open>else\<close>.
\<close>

datatype solver = Piso | Diffusion | Transport | Potential

definition call_solver :: "string \<Rightarrow> solver option" where
  "call_solver s =
     (if compare s ''piso'' = 0 then Some Piso
      else if compare s ''diffusion'' = 0 then Some Diffusion
      else if compare s ''transport'' = 0 then Some Transport
      else if compare s ''potential'' = 0 then Some Potential
      else None)"

text \<open>
  The reading of "two strings differ only in letter case": they have the same length
  and at each position hold the same byte, or a lower-case ASCII letter on one side
  and its upper-case form (32 below) on the other.
\<close>

definition is_lower :: "char \<Rightarrow> bool" where
  "is_lower c = (97 \<le> (of_char c :: nat) \<and> (of_char c :: nat) \<le> 122)"

definition same_letter :: "char \<Rightarrow> char \<Rightarrow> bool" where
  "same_letter c d =
     (c = d
      \<or> (is_lower c \<and> (of_char d :: nat) + 32 = of_char c)
      \<or> (is_lower d \<and> (of_char c :: nat) + 32 = of_char d))"

definition differ_only_in_case :: "string \<Rightarrow> string \<Rightarrow> bool" where
  "differ_only_in_case s t = list_all2 same_letter s t"

text \<open>
  The option list \<^verbatim>\<open>piso\<close> enrols under \<^verbatim>\<open>turbulence_model\<close> (default \<^verbatim>\<open>KE\<close>, index 2),
  and the \<^verbatim>\<open>BoolOption\<close> list used for \<^verbatim>\<open>les_average\<close>.
\<close>

definition turbulence_model_Option :: Option where
  "turbulence_model_Option =
     \<lparr>val = 2,
      list = [''NONE'', ''MIXING_LENGTH'', ''KE'', ''RNG_KE'', ''REALIZABLE_KE'', ''KW'', ''LES'']\<rparr>"

definition BoolOption :: "nat \<Rightarrow> Option" where
  "BoolOption v = \<lparr>val = v, list = [''NO'', ''YES'']\<rparr>"


section \<open>Fields\<close>

text \<open>
  Modelled from the spec: the cell values \<^verbatim>\<open>Scalar\<close> and \<^verbatim>\<open>Vector\<close> of \<^verbatim>\<open>tensor.h\<close>,
  which is not part of the sources at hand. \<^verbatim>\<open>Scalar\<close> is a real number (floating
  point is read as exact arithmetic) and \<^verbatim>\<open>Vector\<close> has three components. The
  operators the drivers use on vectors work componentwise (\<^verbatim>\<open>+\<close>, \<^verbatim>\<open>-\<close>, \<^verbatim>\<open>*\<close>,
  \<^verbatim>\<open>sqrt\<close>, multiplication and division by a scalar); \<^verbatim>\<open>&\<close> is the dot product and
  \<^verbatim>\<open>mag\<close> the Euclidean length.
\<close>

type_synonym Scalar = real

datatype Vector = Vector real real real

instantiation Vector :: real_vector
begin

definition zero_Vector :: Vector where
  "zero_Vector = Vector 0 0 0"

fun plus_Vector :: "Vector \<Rightarrow> Vector \<Rightarrow> Vector" where
  "plus_Vector (Vector a b c) (Vector x y z) = Vector (a + x) (b + y) (c + z)"

fun minus_Vector :: "Vector \<Rightarrow> Vector \<Rightarrow> Vector" where
  "minus_Vector (Vector a b c) (Vector x y z) = Vector (a - x) (b - y) (c - z)"

fun uminus_Vector :: "Vector \<Rightarrow> Vector" where
  "uminus_Vector (Vector a b c) = Vector (- a) (- b) (- c)"

fun scaleR_Vector :: "real \<Rightarrow> Vector \<Rightarrow> Vector" where
  "scaleR_Vector r (Vector a b c) = Vector (r * a) (r * b) (r * c)"

instance
proof
  fix u v w :: Vector and r s :: real
  show "u + v + w = u + (v + w)"
    by (cases u; cases v; cases w) simp
  show "u + v = v + u"
    by (cases u; cases v) simp
  show "0 + u = u"
    by (cases u) (simp add: zero_Vector_def)
  show "- u + u = 0"
    by (cases u) (simp add: zero_Vector_def)
  show "u - v = u + - v"
    by (cases u; cases v) simp
  show "r *\<^sub>R (u + v) = r *\<^sub>R u + r *\<^sub>R v"
    by (cases u; cases v) (simp add: algebra_simps)
  show "(r + s) *\<^sub>R u = r *\<^sub>R u + s *\<^sub>R u"
    by (cases u) (simp add: algebra_simps)
  show "r *\<^sub>R s *\<^sub>R u = (r * s) *\<^sub>R u"
    by (cases u) simp
  show "1 *\<^sub>R u = u"
    by (cases u) simp
qed

end

instantiation Vector :: times
begin

fun times_Vector :: "Vector \<Rightarrow> Vector \<Rightarrow> Vector" where
  "times_Vector (Vector a b c) (Vector x y z) = Vector (a * x) (b * y) (c * z)"

instance ..

end

fun sqrtV :: "Vector \<Rightarrow> Vector" where
  "sqrtV (Vector a b c) = Vector (sqrt a) (sqrt b) (sqrt c)"

fun dot :: "Vector \<Rightarrow> Vector \<Rightarrow> Scalar" where
  "dot (Vector a b c) (Vector x y z) = a * x + b * y + c * z"

definition mag :: "Vector \<Rightarrow> Scalar" where
  "mag v = sqrt (dot v v)"

text \<open>
  Modelled from the spec: the pointwise algebra of \<^verbatim>\<open>Field<T>\<close> (\<^verbatim>\<open>field.h\<close>, not
  part of the sources at hand). A cell field is the array of its values, internal
  cells first, ghost cells after them, and every operator works entry by entry:
  sum, difference, negation and product of fields, product and quotient of a field
  with a scalar, and product of a field with a scalar field. All fields of one mesh
  have the same length, so the pairing never drops an entry.
\<close>

definition fadd :: "'a::plus list \<Rightarrow> 'a list \<Rightarrow> 'a list" where
  "fadd f g = map2 (+) f g"

definition fsub :: "'a::minus list \<Rightarrow> 'a list \<Rightarrow> 'a list" where
  "fsub f g = map2 (-) f g"

definition fneg :: "'a::uminus list \<Rightarrow> 'a list" where
  "fneg f = map uminus f"

definition fmul :: "'a::times list \<Rightarrow> 'a list \<Rightarrow> 'a list" where
  "fmul f g = map2 (*) f g"

definition fscale :: "Scalar \<Rightarrow> 'a::scaleR list \<Rightarrow> 'a list" where
  "fscale c f = map (\<lambda>x. c *\<^sub>R x) f"

definition fdiv :: "'a::scaleR list \<Rightarrow> Scalar \<Rightarrow> 'a list" where
  "fdiv f c = map (\<lambda>x. x /\<^sub>R c) f"

definition fmul_s :: "'a::scaleR list \<Rightarrow> Scalar list \<Rightarrow> 'a list" where
  "fmul_s f s = map2 (\<lambda>x a. a *\<^sub>R x) f s"

section \<open>Loops\<close>

text \<open>
  The two loop forms of the drivers, \<^verbatim>\<open>for(Int i = a; i < n; i++)\<close> and
  \<^verbatim>\<open>for(Int i = a; i <= n; i++)\<close>, over a state. \<^verbatim>\<open>Int\<close> is declared in
  \<^verbatim>\<open>tensor.h\<close>; counters are natural numbers here.
\<close>

function for_lt :: "nat \<Rightarrow> nat \<Rightarrow> (nat \<Rightarrow> 's \<Rightarrow> 's) \<Rightarrow> 's \<Rightarrow> 's" where
  "for_lt i n body s = (if i < n then for_lt (Suc i) n body (body i s) else s)"
  by pat_completeness auto
termination
  by (relation "measure (\<lambda>(i, n, body, s). n - i)") auto

function for_le :: "nat \<Rightarrow> nat \<Rightarrow> (nat \<Rightarrow> 's \<Rightarrow> 's) \<Rightarrow> 's \<Rightarrow> 's" where
  "for_le i n body s = (if i \<le> n then for_le (Suc i) n body (body i s) else s)"
  by pat_completeness auto
termination
  by (relation "measure (\<lambda>(i, n, body, s). Suc n - i)") auto

declare for_lt.simps [simp del] for_le.simps [simp del]

section \<open>Mesh and mesh matrix\<close>

text \<open>
  The part of the mesh the drivers read: owner and neighbour cell of every internal
  face, the number of faces, the cell volumes \<^verbatim>\<open>cV\<close>, the index
  \<^verbatim>\<open>gBCellsStart\<close> of the first ghost cell, and the names of the boundary patches in
  the order of \<^verbatim>\<open>gBoundaries\<close>.
\<close>

record Mesh =
  faces :: "(nat \<times> nat) list"
  nFacets :: nat
  cV :: "Scalar list"
  gBCellsStart :: nat
  gBoundaries :: "string list"

definition const_facet :: "Mesh \<Rightarrow> Scalar \<Rightarrow> Scalar list" where
  "const_facet m c = replicate (nFacets m) c"

text \<open>
  Modelled from the spec: \<^verbatim>\<open>MeshMatrix<T>\<close> of \<^verbatim>\<open>field.h\<close>, which is not part of the
  sources at hand. A diagonal \<^verbatim>\<open>ap\<close> with one scalar per cell, off-diagonals \<^verbatim>\<open>an\<close>
  with two scalars per internal face (owner side, neighbour side), and an explicit
  source \<^verbatim>\<open>Su\<close> with one value per cell.
\<close>

record 'a MeshMatrix =
  ap :: "Scalar list"
  an :: "(Scalar \<times> Scalar) list"
  Su :: "'a list"

text \<open>The value of a field in a cell; an index outside the field reads 0.\<close>

definition cell :: "'a::zero list \<Rightarrow> nat \<Rightarrow> 'a" where
  "cell f i = (if i < length f then f ! i else 0)"

text \<open>
  Modelled from the spec: the off-diagonal product of a matrix with a field
  (\<^verbatim>\<open>field.h\<close>). The stencil is face-local: in the row of a face's owner the
  owner-side coefficient multiplies the neighbour's value, and in the neighbour's
  row the neighbour-side coefficient multiplies the owner's value.
\<close>

definition off_diag :: "Mesh \<Rightarrow> 'a::real_vector MeshMatrix \<Rightarrow> 'a list \<Rightarrow> 'a list" where
  "off_diag m M f =
     map (\<lambda>c. \<Sum>((ow, nb), (a_o, a_n)) \<leftarrow> zip (faces m) (an M).
                (if c = ow then a_o *\<^sub>R cell f nb else 0)
                + (if c = nb then a_n *\<^sub>R cell f ow else 0))
       [0..<length (ap M)]"

text \<open>
  Modelled from the spec: \<^verbatim>\<open>getRHS(M) = Su + off_diag\<cdot>\<phi>_current\<close>, the field being the
  current value of the field the matrix was assembled for.
\<close>

definition getRHS :: "Mesh \<Rightarrow> 'a::real_vector MeshMatrix \<Rightarrow> 'a list \<Rightarrow> 'a list" where
  "getRHS m M f = fadd (Su M) (off_diag m M f)"

text \<open>
  Modelled from the spec: \<^verbatim>\<open>M\<cdot>field\<close>, the matrix-free apply. With the convention
  \<^verbatim>\<open>A\<cdot>\<phi> = Su\<close> and \<^verbatim>\<open>getRHS\<close> as above, the operator is the diagonal part minus the
  off-diagonal part.
\<close>

definition mulM :: "Mesh \<Rightarrow> 'a::real_vector MeshMatrix \<Rightarrow> 'a list \<Rightarrow> 'a list" where
  "mulM m M f = fsub (fmul_s f (ap M)) (off_diag m M f)"

text \<open>
  Modelled from the spec: \<^verbatim>\<open>M.Relax(\<alpha>)\<close> divides the diagonal by \<^verbatim>\<open>\<alpha>\<close> and adds
  \<^verbatim>\<open>(1-\<alpha>)/\<alpha> \<cdot> ap_old \<cdot> \<phi>_current\<close> to \<^verbatim>\<open>Su\<close>.
\<close>

definition Relax :: "Scalar \<Rightarrow> 'a::real_vector list \<Rightarrow> 'a MeshMatrix \<Rightarrow> 'a MeshMatrix" where
  "Relax \<alpha> f M =
     M\<lparr>ap := map (\<lambda>a. a / \<alpha>) (ap M),
       Su := fadd (Su M) (fmul_s f (map (\<lambda>a. (1 - \<alpha>) / \<alpha> * a) (ap M)))\<rparr>"

text \<open>
  Modelled from the spec: \<^verbatim>\<open>c\<cdot>M\<close> (the source's \<^verbatim>\<open>M *= c\<close>, \<^verbatim>\<open>field.h\<close>) scales the
  whole system, diagonal, off-diagonals and source.
\<close>

definition scaleM :: "Scalar \<Rightarrow> 'a::real_vector MeshMatrix \<Rightarrow> 'a MeshMatrix" where
  "scaleM c M =
     M\<lparr>ap := map (\<lambda>a. c * a) (ap M),
       an := map (\<lambda>(a, b). (c * a, c * b)) (an M),
       Su := fscale c (Su M)\<rparr>"

text \<open>
  Modelled from the spec: \<^verbatim>\<open>M1 + M2\<close> (the source's \<^verbatim>\<open>M += ddt(...)\<close>, \<^verbatim>\<open>field.h\<close>)
  adds coefficient by coefficient.
\<close>

definition addM :: "'a::real_vector MeshMatrix \<Rightarrow> 'a MeshMatrix \<Rightarrow> 'a MeshMatrix" where
  "addM M N =
     \<lparr>ap = map2 (+) (ap M) (ap N),
      an = map2 (\<lambda>(a, b) (c, d). (a + c, b + d)) (an M) (an N),
      Su = fadd (Su M) (Su N)\<rparr>"

text \<open>Modelled from the spec: \<^verbatim>\<open>-M\<close> (\<^verbatim>\<open>field.h\<close>) is the system scaled by -1.\<close>

definition negM :: "'a::real_vector MeshMatrix \<Rightarrow> 'a MeshMatrix" where
  "negM M = scaleM (- 1) M"

text \<open>Modelled from the spec: \<^verbatim>\<open>M1 - M2\<close> (\<^verbatim>\<open>field.h\<close>) adds the negated system.\<close>

definition subM :: "'a::real_vector MeshMatrix \<Rightarrow> 'a MeshMatrix \<Rightarrow> 'a MeshMatrix" where
  "subM M N = addM M (negM N)"

text \<open>
  Modelled from the spec: \<^verbatim>\<open>M == rhs\<close> moves the right-hand side into \<^verbatim>\<open>Su\<close> with the
  convention \<^verbatim>\<open>A\<cdot>\<phi> = Su\<close>; it yields the system handed to \<^verbatim>\<open>Solve\<close> and leaves \<^verbatim>\<open>M\<close>
  as it was. The spec reads the source's \<^verbatim>\<open>lap(...) += div(...)\<close> as the same
  equation \<^verbatim>\<open>lap(...) = div(...)\<close>.
\<close>

definition eqn :: "'a::real_vector MeshMatrix \<Rightarrow> 'a list \<Rightarrow> 'a MeshMatrix" where
  "eqn M rhs = M\<lparr>Su := fadd (Su M) rhs\<rparr>"

text \<open>
  Modelled from the spec: \<^verbatim>\<open>p.Relax(p_old, \<alpha>)\<close> on a field blends the old and the new
  value, moving from the old value towards the new one by the factor \<^verbatim>\<open>\<alpha>\<close>.
\<close>

definition Relax_field :: "Scalar list \<Rightarrow> Scalar \<Rightarrow> Scalar list \<Rightarrow> Scalar list" where
  "Relax_field po \<alpha> f = map2 (\<lambda>old new. old + \<alpha> * (new - old)) po f"

section \<open>Controls, solver parameters and the operators of the core\<close>

text \<open>
  Modelled from the spec: the \<^verbatim>\<open>Controls\<close> object, declared in a header that is not
  part of the sources at hand. The drivers read the start step, the end step, the
  write interval, the time step, the state, which is \<^verbatim>\<open>STEADY\<close> or \<^verbatim>\<open>TRANSIENT\<close>, and
  the time-scheme factor.
\<close>

datatype State = STEADY | TRANSIENT

record Controls =
  start_step :: nat
  end_step :: nat
  write_interval :: nat
  dt :: Scalar
  state :: State
  time_scheme_factor :: Scalar

text \<open>
  The solver-specific parameters, with the values a configuration file gave them:
  \<^verbatim>\<open>rho\<close> and \<^verbatim>\<open>viscosity\<close> of the \<^verbatim>\<open>general\<close> block, the parameters of \<^verbatim>\<open>piso\<close> and
  \<^verbatim>\<open>potential\<close>, and \<^verbatim>\<open>DT\<close>, \<^verbatim>\<open>t_UR\<close> of \<^verbatim>\<open>diffusion\<close> and \<^verbatim>\<open>transport\<close>.
  \<^verbatim>\<open>LESaverage\<close> and \<^verbatim>\<open>turb_model\<close> are the integers the two options of \<^verbatim>\<open>piso\<close>
  write to: the index of the name read, in the order \<^verbatim>\<open>NO\<close>, \<^verbatim>\<open>YES\<close> and in the
  order \<^verbatim>\<open>NONE\<close>, \<^verbatim>\<open>MIXING_LENGTH\<close>, \<^verbatim>\<open>KE\<close>, \<^verbatim>\<open>RNG_KE\<close>, \<^verbatim>\<open>REALIZABLE_KE\<close>, \<^verbatim>\<open>KW\<close>, \<^verbatim>\<open>LES\<close>.
\<close>

record Params =
  rho :: Scalar
  viscosity :: Scalar
  velocity_UR :: Scalar
  pressure_UR :: Scalar
  n_PISO :: nat
  n_DEFERRED :: nat
  n_ORTHO :: nat
  LESaverage :: nat
  turb_model :: nat
  DT :: Scalar
  t_UR :: Scalar

text \<open>
  The discretisation operators, the linear solver, the boundary-condition update and
  the turbulence model are declared in headers that are not part of the sources at
  hand (\<^verbatim>\<open>field.h\<close>, \<^verbatim>\<open>solve.h\<close>, \<^verbatim>\<open>turbulence.h\<close>, \<^verbatim>\<open>tensor.h\<close>). The drivers are
  modelled over them: every driver takes the operators as a parameter and nothing is
  assumed about what they compute. An operator that reads or writes a field through a
  reference takes the field's current value and returns the new one.
  \<^item> \<^verbatim>\<open>div_U\<close>, \<^verbatim>\<open>div_T\<close>: the implicit \<^verbatim>\<open>div(U,F,mu)\<close> and \<^verbatim>\<open>div(T,F,mu)\<close>;
    \<^verbatim>\<open>div_expl\<close>: the explicit \<^verbatim>\<open>div(U)\<close>;
  \<^item> \<^verbatim>\<open>lap\<close>: \<^verbatim>\<open>lap(p,gamma)\<close>, assembled around the current value of its field;
  \<^item> \<^verbatim>\<open>ddt_U\<close>, \<^verbatim>\<open>ddt_T\<close>: \<^verbatim>\<open>ddt(U,rho)\<close> and \<^verbatim>\<open>ddt(T,rho)\<close>;
  \<^item> \<^verbatim>\<open>grad\<close>, \<^verbatim>\<open>gradV\<close>, \<^verbatim>\<open>flx\<close>: the explicit gradients and the face flux;
  \<^item> \<^verbatim>\<open>Solve_U\<close>, \<^verbatim>\<open>Solve_S\<close>: \<^verbatim>\<open>Solve\<close> of a vector and of a scalar system, from the
    current value of the unknown to its new value;
  \<^item> \<^verbatim>\<open>updateExplicitBCs_U\<close>, \<^verbatim>\<open>updateExplicitBCs_S\<close>: \<^verbatim>\<open>updateExplicitBCs(f,a,b)\<close>
    with its two flags (the third argument defaults to false);
  \<^item> \<^verbatim>\<open>FillBoundaryValues\<close> of a vector field;
  \<^item> \<^verbatim>\<open>addTurbulentStress\<close>, \<^verbatim>\<open>turb_solve\<close>: the two methods of the turbulence model,
    over the model's own state and the fields \<^verbatim>\<open>U\<close> and \<^verbatim>\<open>F\<close> it holds references to;
  \<^item> \<^verbatim>\<open>equal_Scalar\<close>: \<^verbatim>\<open>equal\<close> on two scalars.
\<close>

record 't Ops =
  equal_Scalar :: "Scalar \<Rightarrow> Scalar \<Rightarrow> bool"
  div_U :: "Vector list \<Rightarrow> Scalar list \<Rightarrow> Scalar list \<Rightarrow> Vector MeshMatrix"
  div_T :: "Scalar list \<Rightarrow> Scalar list \<Rightarrow> Scalar list \<Rightarrow> Scalar MeshMatrix"
  div_expl :: "Vector list \<Rightarrow> Scalar list"
  lap :: "Scalar list \<Rightarrow> Scalar list \<Rightarrow> Scalar MeshMatrix"
  ddt_U :: "Vector list \<Rightarrow> Scalar \<Rightarrow> Vector MeshMatrix"
  ddt_T :: "Scalar list \<Rightarrow> Scalar \<Rightarrow> Scalar MeshMatrix"
  grad :: "Scalar list \<Rightarrow> Vector list"
  gradV :: "Scalar list \<Rightarrow> Vector list"
  flx :: "Vector list \<Rightarrow> Scalar list"
  Solve_U :: "Vector MeshMatrix \<Rightarrow> Vector list \<Rightarrow> Vector list"
  Solve_S :: "Scalar MeshMatrix \<Rightarrow> Scalar list \<Rightarrow> Scalar list"
  updateExplicitBCs_U :: "bool \<Rightarrow> bool \<Rightarrow> Vector list \<Rightarrow> Vector list"
  updateExplicitBCs_S :: "bool \<Rightarrow> bool \<Rightarrow> Scalar list \<Rightarrow> Scalar list"
  FillBoundaryValues :: "Vector list \<Rightarrow> Vector list"
  addTurbulentStress :: "'t \<Rightarrow> Vector list \<Rightarrow> Scalar list \<Rightarrow> Vector MeshMatrix \<Rightarrow> Vector MeshMatrix"
  turb_solve :: "'t \<Rightarrow> Vector list \<Rightarrow> Scalar list \<Rightarrow> 't"

section \<open>Steps shared by the transient drivers\<close>

text \<open>
  \<^verbatim>\<open>Steady = (Controls::state == Controls::STEADY); if(Steady) n_DEFERRED = 0;\<close>
  (\<^verbatim>\<open>piso\<close> lines 229-230, \<^verbatim>\<open>diffusion\<close> 393-394, \<^verbatim>\<open>transport\<close> 470-471).
\<close>

definition Steady :: "Controls \<Rightarrow> bool" where
  "Steady ctl = (state ctl = STEADY)"

definition force_n_DEFERRED :: "Controls \<Rightarrow> Params \<Rightarrow> Params" where
  "force_n_DEFERRED ctl prm = (if Steady ctl then prm\<lparr>n_DEFERRED := 0\<rparr> else prm)"

text \<open>
  The Crank-Nicolson block, written three times in the source with the unknown \<^verbatim>\<open>U\<close>
  (\<^verbatim>\<open>piso\<close> lines 266-270) and \<^verbatim>\<open>T\<close> (\<^verbatim>\<open>diffusion\<close> 416-420, \<^verbatim>\<open>transport\<close> 496-500):
  \<^verbatim>\<open>if(!equal(time_factor,1)) { po = M * U; M *= time_factor; M.Su -= (1 - time_factor) * po; }\<close>
\<close>

definition crank_nicolson ::
  "'t Ops \<Rightarrow> Mesh \<Rightarrow> Scalar \<Rightarrow> 'a::real_vector list \<Rightarrow> 'a MeshMatrix \<Rightarrow> 'a MeshMatrix" where
  "crank_nicolson ops m time_factor f M =
     (if \<not> equal_Scalar ops time_factor 1 then
        (let po = mulM m M f;
             M1 = scaleM time_factor M
         in M1\<lparr>Su := fsub (Su M1) (fscale (1 - time_factor) po)\<rparr>)
      else M)"

text \<open>
  The Crank-Nicolson rewrite in the words of the specification,
  \<^verbatim>\<open>M <- theta*M; Su <- Su - (1 - theta)*(M*phi)\<close>, the product being taken with the
  matrix as assembled and the old-time field.
\<close>

definition cn_rewrite_spec ::
  "Mesh \<Rightarrow> Scalar \<Rightarrow> 'a::real_vector list \<Rightarrow> 'a MeshMatrix \<Rightarrow> 'a MeshMatrix" where
  "cn_rewrite_spec m \<theta> f M =
     \<lparr>ap = map (\<lambda>a. \<theta> * a) (ap M),
      an = map (\<lambda>(a, b). (\<theta> * a, \<theta> * b)) (an M),
      Su = fsub (fscale \<theta> (Su M)) (fscale (1 - \<theta>) (mulM m M f))\<rparr>"

section \<open>The wall-distance driver\<close>

text \<open>
  \<^verbatim>\<open>std::string::find\<close> with a pattern: the first position at which the pattern
  starts, \<open>None\<close> standing for \<^verbatim>\<open>npos\<close>.
\<close>

fun string_find :: "string \<Rightarrow> string \<Rightarrow> nat option" where
  "string_find [] pat = (if pat = [] then Some 0 else None)"
| "string_find (c # cs) pat =
     (if take (length pat) (c # cs) = pat then Some 0
      else map_option Suc (string_find cs pat))"

text \<open>
  The boundary condition \<^verbatim>\<open>Mesh::calc_walldist\<close> creates for a patch (lines 592-601):
  its patch name, the kind and the value.
\<close>

record BCondition =
  bname :: string
  cname :: string
  bc_value :: Scalar

definition walldist_bc :: "string \<Rightarrow> BCondition" where
  "walldist_bc name =
     (if string_find name ''WALL'' \<noteq> None
      then \<lparr>bname = name, cname = ''DIRICHLET'', bc_value = 0\<rparr>
      else \<lparr>bname = name, cname = ''NEUMANN'', bc_value = 0\<rparr>)"

text \<open>
  \<^verbatim>\<open>Mesh::calc_walldist\<close>, lines 585-622. The operators depend on the registry
  \<^verbatim>\<open>AllBConditions\<close>, to which the driver appends one condition for every patch
  (the loop of lines 591-604) before it uses them. The result is the registry, the
  solution \<^verbatim>\<open>phi\<close>, its gradient \<^verbatim>\<open>g\<close> with boundary values filled, and \<^verbatim>\<open>yWall\<close>.
\<close>

record walldist_result =
  wd_AllBConditions :: "BCondition list"
  wd_phi :: "Scalar list"
  wd_g :: "Vector list"
  yWall :: "Scalar list"

definition walldist_bcs :: "Mesh \<Rightarrow> BCondition list \<Rightarrow> BCondition list" where
  "walldist_bcs m bcs = fold (\<lambda>name bcs. bcs @ [walldist_bc name]) (gBoundaries m) bcs"

definition calc_walldist ::
  "(BCondition list \<Rightarrow> 't Ops) \<Rightarrow> Mesh \<Rightarrow> BCondition list \<Rightarrow> walldist_result" where
  "calc_walldist opsf m AllBConditions =
     (let phi0 = replicate (length (cV m)) 0;
          bcs = walldist_bcs m AllBConditions;
          ops = opsf bcs;
          phi1 = updateExplicitBCs_S ops True True phi0;
          one = const_facet m 1;
          phi2 = Solve_S ops (eqn (lap ops phi1 one) (fneg (cV m))) phi1;
          g = FillBoundaryValues ops (grad ops phi2);
          y = fsub (map sqrt (fadd (map (\<lambda>v. dot v v) g) (fscale 2 phi2))) (map mag g)
      in \<lparr>wd_AllBConditions = bcs, wd_phi = phi2, wd_g = g, yWall = y\<rparr>)"

section \<open>The PISO driver\<close>

text \<open>
  The state of \<^verbatim>\<open>piso\<close> from line 227 on: the fields \<^verbatim>\<open>U\<close> and \<^verbatim>\<open>p\<close> as read at the
  start step, the pressure-gradient field \<^verbatim>\<open>gP\<close>, the face flux \<^verbatim>\<open>F\<close>, the state of
  the turbulence model, the four accumulators of the LES statistics, and the list
  of what \<^verbatim>\<open>Mesh::write_fields\<close> has written: the write step with the values of
  \<^verbatim>\<open>U\<close>, \<^verbatim>\<open>p\<close>, \<^verbatim>\<open>Uavg\<close>, \<^verbatim>\<open>Ustd\<close>, \<^verbatim>\<open>pavg\<close>, \<^verbatim>\<open>pstd\<close> at that moment. The probe files
  and the step banner only print and are left out.
\<close>

record written_fields =
  w_step :: nat
  w_U :: "Vector list"
  w_p :: "Scalar list"
  w_Uavg :: "Vector list"
  w_Ustd :: "Vector list"
  w_pavg :: "Scalar list"
  w_pstd :: "Scalar list"

record 't piso_state =
  U_f :: "Vector list"
  p_f :: "Scalar list"
  gP_f :: "Vector list"
  F_f :: "Scalar list"
  turb :: 't
  Uavg :: "Vector list"
  Ustd :: "Vector list"
  pavg :: "Scalar list"
  pstd :: "Scalar list"
  written :: "written_fields list"

definition write_fields :: "nat \<Rightarrow> 't piso_state \<Rightarrow> 't piso_state" where
  "write_fields step s =
     s\<lparr>written := written s @
         [\<lparr>w_step = step, w_U = U_f s, w_p = p_f s,
           w_Uavg = Uavg s, w_Ustd = Ustd s, w_pavg = pavg s, w_pstd = pstd s\<rparr>]\<rparr>"

text \<open>Lines 250-273: the momentum matrix of one deferred-correction pass.\<close>

definition piso_matrix ::
  "'t Ops \<Rightarrow> Mesh \<Rightarrow> Controls \<Rightarrow> Params \<Rightarrow> 't piso_state \<Rightarrow> Vector MeshMatrix" where
  "piso_matrix ops m ctl prm s =
     (let mu = const_facet m (rho prm * viscosity prm);
          M = div_U ops (U_f s) (F_f s) mu;
          M = addTurbulentStress ops (turb s) (U_f s) (F_f s) M
      in if Steady ctl then Relax (velocity_UR prm) (U_f s) M
         else addM (crank_nicolson ops m (time_scheme_factor ctl) (U_f s) M)
                   (ddt_U ops (U_f s) (rho prm)))"

text \<open>
  Lines 282-294, the first half of one pass of the PISO loop: the tentative velocity
  with its boundary update, then the pressure equation in the \<^verbatim>\<open>k\<close> loop and the
  relaxation of \<^verbatim>\<open>p\<close> in the steady case.
\<close>

definition piso_pressure ::
  "'t Ops \<Rightarrow> Mesh \<Rightarrow> Controls \<Rightarrow> Params \<Rightarrow> Vector MeshMatrix \<Rightarrow> Scalar list
     \<Rightarrow> 't piso_state \<Rightarrow> 't piso_state" where
  "piso_pressure ops m ctl prm M api s =
     (let U1 = updateExplicitBCs_U ops True False (fmul_s (getRHS m M (U_f s)) api);
          po = p_f s;
          p1 = for_le 0 (n_ORTHO prm)
                 (\<lambda>k p. Solve_S ops
                           (eqn (lap ops p (fmul (fscale (rho prm) api) (cV m)))
                                (div_expl ops (fscale (rho prm) U1)))
                           p)
                 (p_f s);
          p2 = (if Steady ctl then Relax_field po (pressure_UR prm) p1 else p1)
      in s\<lparr>U_f := U1, p_f := p2\<rparr>)"

text \<open>
  Lines 295-298, the second half:
  \<^verbatim>\<open>gP = -gradV(p); U -= gP * api; updateExplicitBCs(U,true);\<close>
\<close>

definition piso_correct :: "'t Ops \<Rightarrow> Scalar list \<Rightarrow> 't piso_state \<Rightarrow> 't piso_state" where
  "piso_correct ops api s =
     (let gP1 = fneg (gradV ops (p_f s));
          U1 = fsub (U_f s) (fmul_s gP1 api)
      in s\<lparr>gP_f := gP1, U_f := updateExplicitBCs_U ops True False U1\<rparr>)"

definition piso_pass ::
  "'t Ops \<Rightarrow> Mesh \<Rightarrow> Controls \<Rightarrow> Params \<Rightarrow> Vector MeshMatrix \<Rightarrow> Scalar list
     \<Rightarrow> 't piso_state \<Rightarrow> 't piso_state" where
  "piso_pass ops m ctl prm M api s = piso_correct ops api (piso_pressure ops m ctl prm M api s)"

text \<open>Lines 248-307: the body of the deferred-correction loop.\<close>

definition piso_body ::
  "'t Ops \<Rightarrow> Mesh \<Rightarrow> Controls \<Rightarrow> Params \<Rightarrow> 't piso_state \<Rightarrow> 't piso_state" where
  "piso_body ops m ctl prm s =
     (let M = piso_matrix ops m ctl prm s;
          s1 = s\<lparr>U_f := Solve_U ops (eqn M (gP_f s)) (U_f s)\<rparr>;
          api = map (\<lambda>a. 1 / a) (ap M);
          s2 = for_lt 0 (n_PISO prm) (\<lambda>j. piso_pass ops m ctl prm M api) s1;
          U3 = updateExplicitBCs_U ops True True (U_f s2);
          F3 = flx ops (fscale (rho prm) U3)
      in s2\<lparr>U_f := U3, F_f := F3, turb := turb_solve ops (turb s2) U3 F3\<rparr>)"

text \<open>Lines 311-316: the running sums of the LES statistics.\<close>

definition les_accumulate :: "'t piso_state \<Rightarrow> 't piso_state" where
  "les_accumulate s =
     s\<lparr>Uavg := fadd (Uavg s) (U_f s),
       pavg := fadd (pavg s) (p_f s),
       Ustd := fadd (Ustd s) (fmul (U_f s) (U_f s)),
       pstd := fadd (pstd s) (fmul (p_f s) (p_f s))\<rparr>"

text \<open>
  Lines 331-356: the write checkpoint of step \<^verbatim>\<open>i\<close>. With the LES statistics on, the
  accumulators are saved, turned into mean and deviation, written, and restored.
\<close>

definition les_emit :: "nat \<Rightarrow> 't piso_state \<Rightarrow> 't piso_state" where
  "les_emit i s =
     (let Ua = Uavg s; Us = Ustd s; pa = pavg s; ps = pstd s;
          n = real i;
          Uavg1 = fdiv (Uavg s) n;
          pavg1 = fdiv (pavg s) n;
          Ustd1 = fadd (Ustd s) (fmul Uavg1 (fsub (fscale n Uavg1) (fscale 2 Ua)));
          pstd1 = fadd (pstd s) (fmul pavg1 (fsub (fscale n pavg1) (fscale 2 pa)));
          Ustd2 = map sqrtV (fdiv Ustd1 n);
          pstd2 = map sqrt (fdiv pstd1 n)
      in s\<lparr>Uavg := Uavg1, pavg := pavg1, Ustd := Ustd2, pstd := pstd2\<rparr>)"

definition piso_write :: "Controls \<Rightarrow> Params \<Rightarrow> nat \<Rightarrow> 't piso_state \<Rightarrow> 't piso_state" where
  "piso_write ctl prm i s =
     (if i mod write_interval ctl = 0 then
        (let step = i div write_interval ctl
         in if LESaverage prm \<noteq> 0 then
              (let Ua = Uavg s; Us = Ustd s; pa = pavg s; ps = pstd s;
                   s1 = write_fields step (les_emit i s)
               in s1\<lparr>Uavg := Ua, Ustd := Us, pavg := pa, pstd := ps\<rparr>)
            else write_fields step s)
      else s)"

text \<open>The four accumulators of the LES statistics, for stating what leaves them alone.\<close>

definition les_sums ::
  "'t piso_state \<Rightarrow> Vector list \<times> Vector list \<times> Scalar list \<times> Scalar list" where
  "les_sums s = (Uavg s, Ustd s, pavg s, pstd s)"

text \<open>Lines 236-358: one time step, and the loop over the time steps.\<close>

definition piso_step ::
  "'t Ops \<Rightarrow> Mesh \<Rightarrow> Controls \<Rightarrow> Params \<Rightarrow> nat \<Rightarrow> 't piso_state \<Rightarrow> 't piso_state" where
  "piso_step ops m ctl prm i s =
     (let s1 = for_le 0 (n_DEFERRED prm) (\<lambda>n. piso_body ops m ctl prm) s;
          s2 = (if LESaverage prm \<noteq> 0 then les_accumulate s1 else s1)
      in piso_write ctl prm i s2)"

text \<open>
  The \<^verbatim>\<open>switch\<close> over the turbulence model (lines 160-184) sets \<^verbatim>\<open>needWallDist\<close> for
  \<^verbatim>\<open>MIXING_LENGTH\<close> (index 1) and \<^verbatim>\<open>LES\<close> (index 6).
\<close>

definition needWallDist :: "nat \<Rightarrow> bool" where
  "needWallDist tm = (tm = 1 \<or> tm = 6)"

text \<open>
  \<^verbatim>\<open>piso\<close> from line 215 on. The start step divides by \<^verbatim>\<open>write_interval\<close>; a zero
  interval traps there, which is the result \<open>None\<close>. The state given is the one
  after \<^verbatim>\<open>Mesh::read_fields\<close>. When the turbulence model needs the wall distance,
  \<^verbatim>\<open>Mesh::calc_walldist\<close> runs before the time loop (lines 221-226): it appends its
  boundary conditions to \<^verbatim>\<open>AllBConditions\<close>, sets \<^verbatim>\<open>Mesh::yWall\<close>, and calls
  \<^verbatim>\<open>Mesh::write_fields\<close> once under the start step. The operators read both of these
  globals, so they are given as a family over the registry and the wall distance;
  the time loop uses the member for the values the wall-distance driver left. The
  result is the final state and what the wall-distance driver returned, if it ran.
  \<^verbatim>\<open>Util::write_vtk\<close> writes the same fields in another format and is left out.
\<close>

record 't piso_result =
  piso_final :: "'t piso_state"
  piso_walldist :: "walldist_result option"

definition piso ::
  "(BCondition list \<Rightarrow> Scalar list \<Rightarrow> 't Ops) \<Rightarrow> Mesh \<Rightarrow> Controls \<Rightarrow> Params
     \<Rightarrow> BCondition list \<Rightarrow> Scalar list \<Rightarrow> 't piso_state \<Rightarrow> 't piso_result option" where
  "piso opsf m ctl prm0 AllBConditions yWall0 s0 =
     (if write_interval ctl = 0 then None
      else
        (let step = start_step ctl div write_interval ctl;
             start = write_interval ctl * step + 1;
             wd = (if needWallDist (turb_model prm0)
                   then Some (calc_walldist (\<lambda>bcs. opsf bcs yWall0) m AllBConditions)
                   else None);
             s1 = (if needWallDist (turb_model prm0) then write_fields step s0 else s0);
             ops = (case wd of
                      None \<Rightarrow> opsf AllBConditions yWall0
                    | Some r \<Rightarrow> opsf (wd_AllBConditions r) (yWall r));
             prm = force_n_DEFERRED ctl prm0;
             s = s1\<lparr>gP_f := fneg (gradV ops (p_f s1)),
                    F_f := flx ops (fscale (rho prm) (U_f s1))\<rparr>
         in Some \<lparr>piso_final = for_le start (end_step ctl) (piso_step ops m ctl prm) s,
                   piso_walldist = wd\<rparr>))"

section \<open>The diffusion and transport drivers\<close>

text \<open>
  The state of \<^verbatim>\<open>diffusion\<close> and \<^verbatim>\<open>transport\<close>: the unknown \<^verbatim>\<open>T\<close>, for \<^verbatim>\<open>transport\<close>
  the velocity \<^verbatim>\<open>U\<close> it is given, and the write steps with the value of \<^verbatim>\<open>T\<close> written.
\<close>

record scalar_state =
  T_f :: "Scalar list"
  U_given :: "Vector list"
  written_T :: "(nat \<times> Scalar list) list"

text \<open>Lines 409-424: the body of the deferred-correction loop of \<^verbatim>\<open>diffusion\<close>.\<close>

definition diffusion_matrix ::
  "'t Ops \<Rightarrow> Mesh \<Rightarrow> Controls \<Rightarrow> Params \<Rightarrow> scalar_state \<Rightarrow> Scalar MeshMatrix" where
  "diffusion_matrix ops m ctl prm s =
     (let mu = const_facet m (rho prm * DT prm);
          M = negM (lap ops (T_f s) mu)
      in if Steady ctl then Relax (t_UR prm) (T_f s) M
         else addM (crank_nicolson ops m (time_scheme_factor ctl) (T_f s) M)
                   (ddt_T ops (T_f s) (rho prm)))"

definition diffusion_body ::
  "'t Ops \<Rightarrow> Mesh \<Rightarrow> Controls \<Rightarrow> Params \<Rightarrow> scalar_state \<Rightarrow> scalar_state" where
  "diffusion_body ops m ctl prm s =
     s\<lparr>T_f := Solve_S ops (diffusion_matrix ops m ctl prm s) (T_f s)\<rparr>"

text \<open>Lines 487-504: the body of the deferred-correction loop of \<^verbatim>\<open>transport\<close>.\<close>

definition transport_matrix ::
  "'t Ops \<Rightarrow> Mesh \<Rightarrow> Controls \<Rightarrow> Params \<Rightarrow> scalar_state \<Rightarrow> Scalar MeshMatrix" where
  "transport_matrix ops m ctl prm s =
     (let mu = const_facet m (rho prm * DT prm);
          F = flx ops (fscale (rho prm) (U_given s));
          M = subM (div_T ops (T_f s) F mu) (lap ops (T_f s) mu)
      in if Steady ctl then Relax (t_UR prm) (T_f s) M
         else addM (crank_nicolson ops m (time_scheme_factor ctl) (T_f s) M)
                   (ddt_T ops (T_f s) (rho prm)))"

definition transport_body ::
  "'t Ops \<Rightarrow> Mesh \<Rightarrow> Controls \<Rightarrow> Params \<Rightarrow> scalar_state \<Rightarrow> scalar_state" where
  "transport_body ops m ctl prm s =
     s\<lparr>T_f := Solve_S ops (transport_matrix ops m ctl prm s) (T_f s)\<rparr>"

text \<open>
  The time step and the time loop are the same in both drivers (lines 399-433 and
  476-512): the deferred-correction loop, then the write checkpoint.
\<close>

definition scalar_write :: "Controls \<Rightarrow> nat \<Rightarrow> scalar_state \<Rightarrow> scalar_state" where
  "scalar_write ctl i s =
     (if i mod write_interval ctl = 0
      then s\<lparr>written_T := written_T s @ [(i div write_interval ctl, T_f s)]\<rparr>
      else s)"

definition scalar_step ::
  "(scalar_state \<Rightarrow> scalar_state) \<Rightarrow> Controls \<Rightarrow> Params \<Rightarrow> nat \<Rightarrow> scalar_state \<Rightarrow> scalar_state" where
  "scalar_step body ctl prm i s =
     scalar_write ctl i (for_le 0 (n_DEFERRED prm) (\<lambda>n. body) s)"

definition diffusion ::
  "'t Ops \<Rightarrow> Mesh \<Rightarrow> Controls \<Rightarrow> Params \<Rightarrow> scalar_state \<Rightarrow> scalar_state option" where
  "diffusion ops m ctl prm0 s0 =
     (if write_interval ctl = 0 then None
      else
        (let step = start_step ctl div write_interval ctl;
             start = write_interval ctl * step + 1;
             prm = force_n_DEFERRED ctl prm0
         in Some (for_le start (end_step ctl)
                    (scalar_step (diffusion_body ops m ctl prm) ctl prm) s0)))"

definition transport ::
  "'t Ops \<Rightarrow> Mesh \<Rightarrow> Controls \<Rightarrow> Params \<Rightarrow> scalar_state \<Rightarrow> scalar_state option" where
  "transport ops m ctl prm0 s0 =
     (if write_interval ctl = 0 then None
      else
        (let step = start_step ctl div write_interval ctl;
             start = write_interval ctl * step + 1;
             prm = force_n_DEFERRED ctl prm0
         in Some (for_le start (end_step ctl)
                    (scalar_step (transport_body ops m ctl prm) ctl prm) s0)))"

section \<open>The potential-flow driver\<close>


definition zero_internal :: "Mesh \<Rightarrow> Vector list \<times> Scalar list \<Rightarrow> Vector list \<times> Scalar list" where
  "zero_internal m Up =
     for_lt 0 (gBCellsStart m) (\<lambda>i (U, p). (U[i := Vector 0 0 0], p[i := 0])) Up"



section \<open>The main application\<close>






section \<open>Idealised operators for potential flow\<close>


section \<open>Example data\<close>

text \<open>
  A small set of operators on which the drivers can be run: every assembled system
  is diagonal, the solver divides the source by the diagonal, the gradient of a
  scalar puts it into the first component, the divergence and the flux of a vector
  read the first component, and the boundary update changes nothing.
\<close>

fun comp_x :: "Vector \<Rightarrow> Scalar" where
  "comp_x (Vector a b c) = a"

definition example_ops :: "unit Ops" where
  "example_ops =
     \<lparr>equal_Scalar = (=),
      div_U = (\<lambda>U F mu. \<lparr>ap = map (\<lambda>u. 2) U, an = [], Su = U\<rparr>),
      div_T = (\<lambda>T F mu. \<lparr>ap = map (\<lambda>u. 2) T, an = [], Su = T\<rparr>),
      div_expl = map comp_x,
      lap = (\<lambda>p g. \<lparr>ap = map (\<lambda>u. 1) p, an = [], Su = map (\<lambda>u. 0) p\<rparr>),
      ddt_U = (\<lambda>U r. \<lparr>ap = map (\<lambda>u. r) U, an = [], Su = fscale r U\<rparr>),
      ddt_T = (\<lambda>T r. \<lparr>ap = map (\<lambda>u. r) T, an = [], Su = fscale r T\<rparr>),
      grad = map (\<lambda>x. Vector x 0 0),
      gradV = map (\<lambda>x. Vector x 0 0),
      flx = map comp_x,
      Solve_U = (\<lambda>M U. fmul_s (Su M) (map (\<lambda>a. 1 / a) (ap M))),
      Solve_S = (\<lambda>M p. map2 (\<lambda>s a. s / a) (Su M) (ap M)),
      updateExplicitBCs_U = (\<lambda>a b U. U),
      updateExplicitBCs_S = (\<lambda>a b p. p),
      FillBoundaryValues = (\<lambda>g. g),
      addTurbulentStress = (\<lambda>t U F M. M),
      turb_solve = (\<lambda>t U F. t)\<rparr>"

definition example_mesh :: Mesh where
  "example_mesh =
     \<lparr>faces = [(0, 1)], nFacets = 3, cV = [1, 1],
      gBCellsStart = 1, gBoundaries = [''INLET'', ''TOP_WALL'']\<rparr>"

definition example_controls :: "State \<Rightarrow> Controls" where
  "example_controls st =
     \<lparr>start_step = 0, end_step = 2, write_interval = 2, dt = 1,
      state = st, time_scheme_factor = 1 / 2\<rparr>"

definition example_params :: Params where
  "example_params =
     \<lparr>rho = 1, viscosity = 1, velocity_UR = 1 / 2, pressure_UR = 1 / 2,
      n_PISO = 1, n_DEFERRED = 5, n_ORTHO = 1, LESaverage = 1, turb_model = 1,
      DT = 1, t_UR = 1 / 2\<rparr>"

definition example_state :: "unit piso_state" where
  "example_state =
     \<lparr>U_f = [Vector 0 0 0, Vector 2 0 0], p_f = [1, 3], gP_f = [], F_f = [],
      turb = (), Uavg = [Vector 2 4 0, Vector 0 0 0], Ustd = [Vector 4 8 0, Vector 0 0 0],
      pavg = [2, 0], pstd = [4, 0], written = []\<rparr>"



definition example_matrix :: "Scalar MeshMatrix" where
  "example_matrix = \<lparr>ap = [2, 4], an = [(1, 3)], Su = [1, 1]\<rparr>"

section \<open>Case-insensitive matching\<close>

lemma toupper_lower:
  assumes "is_lower c" and "(of_char d :: nat) + 32 = of_char c"
  shows "toupper c = d" and "toupper d = d"
proof -
  from assms have d: "(of_char c :: nat) - 32 = of_char d"
    by simp
  from assms show "toupper c = d"
    unfolding toupper_def is_lower_def Let_def d by simp
  from assms have "\<not> (97 \<le> (of_char d :: nat))"
    by (simp add: is_lower_def)
  then show "toupper d = d"
    by (simp add: toupper_def)
qed

lemma same_letter_toupper:
  assumes "same_letter c d"
  shows "toupper c = toupper d"
proof -
  from assms consider "c = d"
    | "is_lower c \<and> (of_char d :: nat) + 32 = of_char c"
    | "is_lower d \<and> (of_char c :: nat) + 32 = of_char d"
    unfolding same_letter_def by blast
  then show ?thesis
  proof cases
    case 1
    then show ?thesis by simp
  next
    case 2
    then show ?thesis using toupper_lower [of c d] by simp
  next
    case 3
    then show ?thesis using toupper_lower [of d c] by simp
  qed
qed

lemma differ_only_in_case_toupper:
  "differ_only_in_case s t \<Longrightarrow> map toupper s = map toupper t"
  unfolding differ_only_in_case_def
  by (induction s t rule: list_all2_induct) (auto dest: same_letter_toupper)

lemma compare_case_right:
  "differ_only_in_case s t \<Longrightarrow> compare x s = compare x t"
  by (simp add: compare_def differ_only_in_case_toupper)

lemma compare_case_left:
  "differ_only_in_case s t \<Longrightarrow> compare s x = compare t x"
  by (simp add: compare_def differ_only_in_case_toupper)

lemma getID_loop_case:
  "differ_only_in_case s t \<Longrightarrow> getID_loop xs s i = getID_loop xs t i"
  by (induction xs arbitrary: i) (simp_all add: compare_case_right)

text \<open>
  C2. Enumerations are matched case-insensitively: for every option list and every
  two input strings that differ only in letter case, \<^verbatim>\<open>getID\<close> selects the same
  enumerator, and \<^verbatim>\<open>main\<close> dispatches to the same solver.
\<close>

theorem enum_match_case_insensitive:
  assumes "differ_only_in_case s t"
  shows "fst (getID p s) = fst (getID p t)
       \<and> val (fst (read_Option p s)) = val (fst (read_Option p t))
       \<and> call_solver s = call_solver t"
proof -
  from assms have l: "getID_loop (list p) s 0 = getID_loop (list p) t 0"
    by (rule getID_loop_case)
  then have g: "fst (getID p s) = fst (getID p t)"
    by (simp add: getID_def split: option.splits)
  then have r: "val (fst (read_Option p s)) = val (fst (read_Option p t))"
    by (simp add: read_Option_def case_prod_beta)
  from assms have c: "call_solver s = call_solver t"
    by (simp add: call_solver_def compare_case_left)
  from g r c show ?thesis by simp
qed

text \<open>
  Witness for C2: \<^verbatim>\<open>Rng_ke\<close> and \<^verbatim>\<open>RNG_KE\<close> both select index 3 of the turbulence
  models, and \<^verbatim>\<open>PoTeNtIaL\<close> dispatches like \<^verbatim>\<open>potential\<close>.
\<close>

theorem enum_match_case_insensitive_witness:
  "differ_only_in_case ''Rng_ke'' ''RNG_KE''
   \<and> fst (getID turbulence_model_Option ''Rng_ke'') = 3
   \<and> fst (getID turbulence_model_Option ''RNG_KE'') = 3
   \<and> differ_only_in_case ''PoTeNtIaL'' ''potential''
   \<and> call_solver ''PoTeNtIaL'' = Some Potential"
proof -
  have h: "differ_only_in_case ''Rng_ke'' ''RNG_KE''"
    by (simp add: differ_only_in_case_def same_letter_def is_lower_def)
  have k: "differ_only_in_case ''PoTeNtIaL'' ''potential''"
    by (simp add: differ_only_in_case_def same_letter_def is_lower_def)
  have v: "fst (getID turbulence_model_Option ''RNG_KE'') = 3"
    by code_simp
  have c: "call_solver ''potential'' = Some Potential"
    by code_simp
  from enum_match_case_insensitive [OF h, of turbulence_model_Option]
    enum_match_case_insensitive [OF k, of turbulence_model_Option] h k v c
  show ?thesis by simp
qed

section \<open>Loops as iteration\<close>

lemma for_le_funpow: "for_le i n (\<lambda>k. f) s = (f ^^ (Suc n - i)) s"
proof (induction i n "\<lambda>k::nat. f" s rule: for_le.induct)
  case (1 i n s)
  show ?case
  proof (cases "i \<le> n")
    case True
    then have "Suc n - i = Suc (Suc n - Suc i)" by simp
    with True 1 show ?thesis
      by (subst for_le.simps) (simp add: funpow_swap1 del: diff_Suc_Suc)
  next
    case False
    then show ?thesis by (subst for_le.simps) simp
  qed
qed

lemma for_lt_funpow: "for_lt i n (\<lambda>k. f) s = (f ^^ (n - i)) s"
proof (induction i n "\<lambda>k::nat. f" s rule: for_lt.induct)
  case (1 i n s)
  show ?case
  proof (cases "i < n")
    case True
    then have "n - i = Suc (n - Suc i)" by simp
    with True 1 show ?thesis
      by (subst for_lt.simps) (simp add: funpow_swap1)
  next
    case False
    then show ?thesis by (subst for_lt.simps) simp
  qed
qed

lemma for_le_once: "for_le 0 0 body s = body 0 s"
  by (simp add: for_le.simps)

lemma for_le_step: "i \<le> n \<Longrightarrow> for_le i n body s = for_le (Suc i) n body (body i s)"
  by (subst for_le.simps) simp

lemma for_le_done: "n < i \<Longrightarrow> for_le i n body s = s"
  by (subst for_le.simps) simp

section \<open>Configuration errors and exit codes\<close>









section \<open>The PISO corrector\<close>

text \<open>
  C4. In every pass of the PISO loop the tentative velocity is
  \<^verbatim>\<open>getRHS(M) * api\<close> with the explicit boundary conditions applied; the pressure
  equation \<^verbatim>\<open>lap(p, rho*api*cV) = div(rho*U_a)\<close> is then assembled around the current
  \<^verbatim>\<open>p\<close> and solved once for each \<^verbatim>\<open>k\<close> of \<^verbatim>\<open>0..n_ORTHO\<close>, that is \<^verbatim>\<open>n_ORTHO + 1\<close>
  times; in the steady case \<^verbatim>\<open>p\<close> is afterwards relaxed towards the value it had
  before the \<^verbatim>\<open>k\<close> loop with the factor \<^verbatim>\<open>pressure_UR\<close>. The PISO loop runs this
  pass, followed by the velocity correction, \<^verbatim>\<open>n_PISO\<close> times.
\<close>

theorem piso_pressure_step:
  "piso_pressure ops m ctl prm M api s =
     (let Ua = updateExplicitBCs_U ops True False (fmul_s (getRHS m M (U_f s)) api);
          poisson = (\<lambda>p. Solve_S ops
                            (eqn (lap ops p (fmul (fscale (rho prm) api) (cV m)))
                                 (div_expl ops (fscale (rho prm) Ua)))
                            p);
          p1 = (poisson ^^ (n_ORTHO prm + 1)) (p_f s)
      in s\<lparr>U_f := Ua,
           p_f := if Steady ctl then Relax_field (p_f s) (pressure_UR prm) p1 else p1\<rparr>)
   \<and> for_lt 0 (n_PISO prm) (\<lambda>j. piso_pass ops m ctl prm M api) s
       = ((\<lambda>s. piso_correct ops api (piso_pressure ops m ctl prm M api s)) ^^ n_PISO prm) s"
proof -
  have "piso_pass ops m ctl prm M api = (\<lambda>s. piso_correct ops api (piso_pressure ops m ctl prm M api s))"
    by (rule ext) (simp add: piso_pass_def)
  then show ?thesis
    by (simp add: piso_pressure_def for_le_funpow for_lt_funpow Let_def)
qed




section \<open>The deferred-correction loop in the steady case\<close>

lemma force_n_DEFERRED_steady:
  "Steady ctl \<Longrightarrow> force_n_DEFERRED ctl prm = prm\<lparr>n_DEFERRED := 0\<rparr>"
  by (simp add: force_n_DEFERRED_def)

text \<open>
  C10. When the controls state is \<^verbatim>\<open>STEADY\<close>, \<^verbatim>\<open>piso\<close>, \<^verbatim>\<open>diffusion\<close> and \<^verbatim>\<open>transport\<close>
  set \<^verbatim>\<open>n_DEFERRED\<close> to 0 before the time loop, whatever the configuration gave. The
  loop \<^verbatim>\<open>for(n = 0; n <= n_DEFERRED; n++)\<close> then runs its body exactly once (a body
  that counts its runs ends at 1), so each driver is the time loop in which every
  time step is one pass of the assembly-and-solve body, run with \<^verbatim>\<open>n_DEFERRED = 0\<close>,
  followed by the rest of the step: the LES sums and the write checkpoint in
  \<^verbatim>\<open>piso\<close>, the write checkpoint in \<^verbatim>\<open>diffusion\<close> and \<^verbatim>\<open>transport\<close>.
\<close>

theorem steady_single_pass:
  assumes "Steady ctl"
  shows "n_DEFERRED (force_n_DEFERRED ctl prm) = 0
       \<and> for_le 0 (n_DEFERRED (force_n_DEFERRED ctl prm)) (\<lambda>n (c, x). (Suc c, body x)) (0, x0)
           = (1, body x0)
       \<and> piso opsf m ctl prm reg yW s =
           (if write_interval ctl = 0 then None
            else
              (let step = start_step ctl div write_interval ctl;
                   start = write_interval ctl * step + 1;
                   wd = (if needWallDist (turb_model prm)
                         then Some (calc_walldist (\<lambda>bcs. opsf bcs yW) m reg) else None);
                   s1 = (if needWallDist (turb_model prm) then write_fields step s else s);
                   ops = (case wd of
                            None \<Rightarrow> opsf reg yW
                          | Some r \<Rightarrow> opsf (wd_AllBConditions r) (yWall r));
                   prm1 = prm\<lparr>n_DEFERRED := 0\<rparr>;
                   s2 = s1\<lparr>gP_f := fneg (gradV ops (p_f s1)),
                           F_f := flx ops (fscale (rho prm) (U_f s1))\<rparr>
               in Some \<lparr>piso_final =
                           for_le start (end_step ctl)
                             (\<lambda>i s. piso_write ctl prm1 i
                                      (if LESaverage prm \<noteq> 0
                                       then les_accumulate (piso_body ops m ctl prm1 s)
                                       else piso_body ops m ctl prm1 s))
                             s2,
                         piso_walldist = wd\<rparr>))
       \<and> diffusion ops m ctl prm t =
           (if write_interval ctl = 0 then None
            else Some (for_le (write_interval ctl * (start_step ctl div write_interval ctl) + 1)
                         (end_step ctl)
                         (\<lambda>i t. scalar_write ctl i
                                  (diffusion_body ops m ctl (prm\<lparr>n_DEFERRED := 0\<rparr>) t))
                         t))
       \<and> transport ops m ctl prm t =
           (if write_interval ctl = 0 then None
            else Some (for_le (write_interval ctl * (start_step ctl div write_interval ctl) + 1)
                         (end_step ctl)
                         (\<lambda>i t. scalar_write ctl i
                                  (transport_body ops m ctl (prm\<lparr>n_DEFERRED := 0\<rparr>) t))
                         t))"
proof -
  let ?prm = "prm\<lparr>n_DEFERRED := 0\<rparr>"
  from assms have f: "force_n_DEFERRED ctl prm = ?prm"
    by (rule force_n_DEFERRED_steady)
  then have z: "n_DEFERRED (force_n_DEFERRED ctl prm) = 0"
    by simp
  have c: "for_le 0 (n_DEFERRED (force_n_DEFERRED ctl prm)) (\<lambda>n (c, x). (Suc c, body x)) (0, x0)
           = (1, body x0)"
    by (simp add: z for_le_once)
  have ps: "piso_step ops' m ctl ?prm
            = (\<lambda>i s. piso_write ctl ?prm i
                       (if LESaverage prm \<noteq> 0 then les_accumulate (piso_body ops' m ctl ?prm s)
                        else piso_body ops' m ctl ?prm s))" for ops'
    by (intro ext) (simp add: piso_step_def for_le_once)
  have ds: "scalar_step (diffusion_body ops m ctl ?prm) ctl ?prm
            = (\<lambda>i t. scalar_write ctl i (diffusion_body ops m ctl ?prm t))"
    by (intro ext) (simp add: scalar_step_def for_le_once)
  have ts: "scalar_step (transport_body ops m ctl ?prm) ctl ?prm
            = (\<lambda>i t. scalar_write ctl i (transport_body ops m ctl ?prm t))"
    by (intro ext) (simp add: scalar_step_def for_le_once)
  have p: "piso opsf m ctl prm reg yW s =
           (if write_interval ctl = 0 then None
            else
              (let step = start_step ctl div write_interval ctl;
                   start = write_interval ctl * step + 1;
                   wd = (if needWallDist (turb_model prm)
                         then Some (calc_walldist (\<lambda>bcs. opsf bcs yW) m reg) else None);
                   s1 = (if needWallDist (turb_model prm) then write_fields step s else s);
                   ops = (case wd of
                            None \<Rightarrow> opsf reg yW
                          | Some r \<Rightarrow> opsf (wd_AllBConditions r) (yWall r));
                   prm1 = prm\<lparr>n_DEFERRED := 0\<rparr>;
                   s2 = s1\<lparr>gP_f := fneg (gradV ops (p_f s1)),
                           F_f := flx ops (fscale (rho prm) (U_f s1))\<rparr>
               in Some \<lparr>piso_final =
                           for_le start (end_step ctl)
                             (\<lambda>i s. piso_write ctl prm1 i
                                      (if LESaverage prm \<noteq> 0
                                       then les_accumulate (piso_body ops m ctl prm1 s)
                                       else piso_body ops m ctl prm1 s))
                             s2,
                         piso_walldist = wd\<rparr>))"
    unfolding piso_def f Let_def ps by simp
  have d: "diffusion ops m ctl prm t =
           (if write_interval ctl = 0 then None
            else Some (for_le (write_interval ctl * (start_step ctl div write_interval ctl) + 1)
                         (end_step ctl)
                         (\<lambda>i t. scalar_write ctl i (diffusion_body ops m ctl ?prm t)) t))"
    unfolding diffusion_def f Let_def ds ..
  have t: "transport ops m ctl prm t =
           (if write_interval ctl = 0 then None
            else Some (for_le (write_interval ctl * (start_step ctl div write_interval ctl) + 1)
                         (end_step ctl)
                         (\<lambda>i t. scalar_write ctl i (transport_body ops m ctl ?prm t)) t))"
    unfolding transport_def f Let_def ts ..
  show ?thesis
    by (intro conjI) (rule z, rule c, rule p, rule d, rule t)
qed

text \<open>
  Witness for C10: steady controls with \<^verbatim>\<open>n_DEFERRED = 5\<close> in the configuration and the
  time steps 1 and 2. Under the example operators one pass of the steady diffusion
  body halves \<^verbatim>\<open>T\<close>; the driver ends with \<^verbatim>\<open>T\<close> halved twice, once for each time step.
\<close>

theorem steady_single_pass_witness:
  "Steady (example_controls STEADY)
   \<and> n_DEFERRED example_params = 5
   \<and> n_DEFERRED (force_n_DEFERRED (example_controls STEADY) example_params) = 0
   \<and> diffusion_body example_ops example_mesh (example_controls STEADY)
        (example_params\<lparr>n_DEFERRED := 0\<rparr>) \<lparr>T_f = [1, 2], U_given = [], written_T = []\<rparr>
       = \<lparr>T_f = [1 / 2, 1], U_given = [], written_T = []\<rparr>
   \<and> diffusion example_ops example_mesh (example_controls STEADY) example_params
        \<lparr>T_f = [1, 2], U_given = [], written_T = []\<rparr>
       = Some \<lparr>T_f = [1 / 4, 1 / 2], U_given = [], written_T = [(1, [1 / 4, 1 / 2])]\<rparr>"
proof -
  let ?t = "\<lparr>T_f = [1, 2], U_given = [], written_T = []\<rparr>"
  have h: "Steady (example_controls STEADY)"
    by (simp add: Steady_def example_controls_def)
  have n: "n_DEFERRED example_params = 5"
    by (simp add: example_params_def)
  have body: "diffusion_body example_ops example_mesh (example_controls STEADY)
        (example_params\<lparr>n_DEFERRED := 0\<rparr>) \<lparr>T_f = [a, b], U_given = [], written_T = w\<rparr>
       = \<lparr>T_f = [a / 2, b / 2], U_given = [], written_T = w\<rparr>" for a b w
    using h
    by (simp add: diffusion_body_def diffusion_matrix_def Let_def example_ops_def
        example_params_def example_mesh_def const_facet_def negM_def scaleM_def Relax_def
        fscale_def fadd_def fmul_s_def)
  note w = steady_single_pass [OF h, of example_params "\<lambda>x. x" "0 :: nat"
      "\<lambda>bcs y. example_ops" example_mesh "[]" "[]" example_state example_ops ?t]
  from w have a: "n_DEFERRED (force_n_DEFERRED (example_controls STEADY) example_params) = 0"
    by (rule conjunct1)
  from w have "diffusion example_ops example_mesh (example_controls STEADY) example_params ?t
      = Some (for_le 1 2
                (\<lambda>i t. scalar_write (example_controls STEADY) i
                         (diffusion_body example_ops example_mesh (example_controls STEADY)
                            (example_params\<lparr>n_DEFERRED := 0\<rparr>) t)) ?t)"
    by (simp add: example_controls_def)
  then have d: "diffusion example_ops example_mesh (example_controls STEADY) example_params ?t
      = Some \<lparr>T_f = [1 / 4, 1 / 2], U_given = [], written_T = [(1, [1 / 4, 1 / 2])]\<rparr>"
    by (simp add: for_le_step for_le_done body scalar_write_def)
      (simp add: example_controls_def)
  from h n a body [of 1 2 "[]"] d show ?thesis
    by simp
qed

section \<open>Under-relaxation of a matrix\<close>

lemma off_diag_Relax: "off_diag m (Relax \<alpha> f M) g = off_diag m M g"
  by (simp add: off_diag_def Relax_def)

lemma relax_rows:
  fixes f :: "'a::real_vector list"
  assumes "\<alpha> \<noteq> 0"
  shows "map2 (-) (map2 (\<lambda>x a. a *\<^sub>R x) f (map (\<lambda>a. a / \<alpha>) A)) D
       = map2 (+) (map2 (-) (map2 (\<lambda>x a. a *\<^sub>R x) f A) D)
                  (map2 (\<lambda>x a. a *\<^sub>R x) f (map (\<lambda>a. (1 - \<alpha>) / \<alpha> * a) A))"
proof (induction f arbitrary: A D)
  case Nil
  then show ?case by simp
next
  case (Cons x f)
  have row: "(a / \<alpha>) *\<^sub>R x - d = a *\<^sub>R x - d + ((1 - \<alpha>) / \<alpha> * a) *\<^sub>R x" for a d
  proof -
    have "a / \<alpha> = a + (1 - \<alpha>) / \<alpha> * a"
      using assms by (simp add: field_simps)
    then have "(a / \<alpha>) *\<^sub>R x = a *\<^sub>R x + ((1 - \<alpha>) / \<alpha> * a) *\<^sub>R x"
      by (simp only: scaleR_add_left)
    then show ?thesis by simp
  qed
  show ?case
    by (cases A; cases D) (simp_all add: Cons row)
qed

text \<open>
  C8. For every matrix, every relaxation factor \<^verbatim>\<open>0 < \<alpha> \<le> 1\<close> and every field \<open>\<phi>\<close>:
  if \<open>\<phi>\<close> satisfies \<^verbatim>\<open>A\<cdot>\<phi> = Su\<close>, then it also satisfies the system relaxed around
  \<open>\<phi>\<close> (diagonal divided by \<^verbatim>\<open>\<alpha>\<close>, \<^verbatim>\<open>(1-\<alpha>)/\<alpha> \<cdot> ap_old \<cdot> \<phi>\<close> added to \<^verbatim>\<open>Su\<close>).
\<close>

theorem Relax_fixed_point:
  fixes f :: "'a::real_vector list"
  assumes "0 < \<alpha>" and "\<alpha> \<le> 1" and "mulM m M f = Su M"
  shows "mulM m (Relax \<alpha> f M) f = Su (Relax \<alpha> f M)"
proof -
  from assms(1) have nz: "\<alpha> \<noteq> 0" by simp
  have "mulM m (Relax \<alpha> f M) f
        = map2 (-) (map2 (\<lambda>x a. a *\<^sub>R x) f (map (\<lambda>a. a / \<alpha>) (ap M))) (off_diag m M f)"
    by (simp add: mulM_def off_diag_Relax fsub_def fmul_s_def) (simp add: Relax_def)
  also have "\<dots> = map2 (+) (mulM m M f)
                  (map2 (\<lambda>x a. a *\<^sub>R x) f (map (\<lambda>a. (1 - \<alpha>) / \<alpha> * a) (ap M)))"
    using relax_rows [OF nz] by (simp add: mulM_def fsub_def fmul_s_def)
  also have "\<dots> = Su (Relax \<alpha> f M)"
    by (simp add: assms(3) Relax_def fadd_def fmul_s_def)
  finally show ?thesis .
qed

text \<open>
  Witness for C8: two cells joined by one face, the field \<^verbatim>\<open>[1, 1]\<close> solving the
  system \<^verbatim>\<open>ap = [2, 4]\<close>, \<^verbatim>\<open>an = [(1, 3)]\<close>, \<^verbatim>\<open>Su = [1, 1]\<close>, relaxed with \<^verbatim>\<open>\<alpha> = 1/2\<close>.
\<close>

theorem Relax_fixed_point_witness:
  "(0 :: real) < 1 / 2 \<and> (1 / 2 :: real) \<le> 1
   \<and> mulM example_mesh example_matrix [1, 1] = Su example_matrix
   \<and> Relax (1 / 2) [1, 1] example_matrix = \<lparr>ap = [4, 8], an = [(1, 3)], Su = [3, 5]\<rparr>
   \<and> mulM example_mesh \<lparr>ap = [4, 8], an = [(1, 3)], Su = [3, 5]\<rparr> [1, 1] = [3, 5 :: real]"
proof -
  have a: "(0 :: real) < 1 / 2" and b: "(1 / 2 :: real) \<le> 1"
    by simp_all
  have c: "mulM example_mesh example_matrix [1, 1] = Su example_matrix"
    by (simp add: mulM_def example_mesh_def example_matrix_def off_diag_def fsub_def
        fmul_s_def cell_def)
  have d: "Relax (1 / 2) [1, 1] example_matrix = \<lparr>ap = [4, 8], an = [(1, 3)], Su = [3, 5]\<rparr>"
    by (simp add: Relax_def example_matrix_def fadd_def fmul_s_def)
  from Relax_fixed_point [OF a b c] a b c d show ?thesis
    by simp
qed

section \<open>The Crank-Nicolson rewrite\<close>

lemma crank_nicolson_rewrites:
  "\<not> equal_Scalar ops \<theta> 1 \<Longrightarrow> crank_nicolson ops m \<theta> f M = cn_rewrite_spec m \<theta> f M"
  by (simp add: crank_nicolson_def cn_rewrite_spec_def scaleM_def Let_def)

lemma crank_nicolson_keeps:
  "equal_Scalar ops \<theta> 1 \<Longrightarrow> crank_nicolson ops m \<theta> f M = M"
  by (simp add: crank_nicolson_def)

text \<open>
  C5. In a transient solve of \<^verbatim>\<open>piso\<close>, \<^verbatim>\<open>diffusion\<close> or \<^verbatim>\<open>transport\<close>, with \<^verbatim>\<open>equal\<close>
  telling whether the time-scheme factor \<open>\<theta>\<close> is 1: when \<open>\<theta> < 1\<close> the assembled matrix
  \<^verbatim>\<open>M\<close> is rewritten to \<^verbatim>\<open>\<theta>\<cdot>M\<close> with \<^verbatim>\<open>Su <- Su - (1 - \<theta>)\<cdot>(M\<cdot>\<phi>)\<close>, the product being
  taken with the matrix as assembled and the current (old-time) field, and the
  time-derivative matrix is added to the result; when \<open>\<theta> = 1\<close> the time-derivative
  matrix is added to \<^verbatim>\<open>M\<close> unchanged.
\<close>

theorem crank_nicolson_rewrite:
  assumes "\<not> Steady ctl"
    and "equal_Scalar ops (time_scheme_factor ctl) 1 = (time_scheme_factor ctl = 1)"
  shows "(time_scheme_factor ctl < 1 \<longrightarrow>
            crank_nicolson ops m (time_scheme_factor ctl) f M
              = cn_rewrite_spec m (time_scheme_factor ctl) f M
          \<and> piso_matrix ops m ctl prm s
              = addM (cn_rewrite_spec m (time_scheme_factor ctl) (U_f s)
                        (addTurbulentStress ops (turb s) (U_f s) (F_f s)
                           (div_U ops (U_f s) (F_f s) (const_facet m (rho prm * viscosity prm)))))
                     (ddt_U ops (U_f s) (rho prm))
          \<and> diffusion_matrix ops m ctl prm t
              = addM (cn_rewrite_spec m (time_scheme_factor ctl) (T_f t)
                        (negM (lap ops (T_f t) (const_facet m (rho prm * DT prm)))))
                     (ddt_T ops (T_f t) (rho prm))
          \<and> transport_matrix ops m ctl prm t
              = addM (cn_rewrite_spec m (time_scheme_factor ctl) (T_f t)
                        (subM (div_T ops (T_f t) (flx ops (fscale (rho prm) (U_given t)))
                                 (const_facet m (rho prm * DT prm)))
                              (lap ops (T_f t) (const_facet m (rho prm * DT prm)))))
                     (ddt_T ops (T_f t) (rho prm)))
       \<and> (time_scheme_factor ctl = 1 \<longrightarrow>
            crank_nicolson ops m (time_scheme_factor ctl) f M = M
          \<and> piso_matrix ops m ctl prm s
              = addM (addTurbulentStress ops (turb s) (U_f s) (F_f s)
                        (div_U ops (U_f s) (F_f s) (const_facet m (rho prm * viscosity prm))))
                     (ddt_U ops (U_f s) (rho prm))
          \<and> diffusion_matrix ops m ctl prm t
              = addM (negM (lap ops (T_f t) (const_facet m (rho prm * DT prm))))
                     (ddt_T ops (T_f t) (rho prm))
          \<and> transport_matrix ops m ctl prm t
              = addM (subM (div_T ops (T_f t) (flx ops (fscale (rho prm) (U_given t)))
                              (const_facet m (rho prm * DT prm)))
                           (lap ops (T_f t) (const_facet m (rho prm * DT prm))))
                     (ddt_T ops (T_f t) (rho prm)))"
proof (intro conjI impI)
  assume lt: "time_scheme_factor ctl < 1"
  with assms(2) have ne: "\<not> equal_Scalar ops (time_scheme_factor ctl) 1"
    by simp
  show "crank_nicolson ops m (time_scheme_factor ctl) f M
          = cn_rewrite_spec m (time_scheme_factor ctl) f M"
    using ne by (rule crank_nicolson_rewrites)
  show "piso_matrix ops m ctl prm s
          = addM (cn_rewrite_spec m (time_scheme_factor ctl) (U_f s)
                    (addTurbulentStress ops (turb s) (U_f s) (F_f s)
                       (div_U ops (U_f s) (F_f s) (const_facet m (rho prm * viscosity prm)))))
                 (ddt_U ops (U_f s) (rho prm))"
    using assms(1) by (simp add: piso_matrix_def Let_def crank_nicolson_rewrites [OF ne])
  show "diffusion_matrix ops m ctl prm t
          = addM (cn_rewrite_spec m (time_scheme_factor ctl) (T_f t)
                    (negM (lap ops (T_f t) (const_facet m (rho prm * DT prm)))))
                 (ddt_T ops (T_f t) (rho prm))"
    using assms(1) by (simp add: diffusion_matrix_def Let_def crank_nicolson_rewrites [OF ne])
  show "transport_matrix ops m ctl prm t
          = addM (cn_rewrite_spec m (time_scheme_factor ctl) (T_f t)
                    (subM (div_T ops (T_f t) (flx ops (fscale (rho prm) (U_given t)))
                             (const_facet m (rho prm * DT prm)))
                          (lap ops (T_f t) (const_facet m (rho prm * DT prm)))))
                 (ddt_T ops (T_f t) (rho prm))"
    using assms(1) by (simp add: transport_matrix_def Let_def crank_nicolson_rewrites [OF ne])
next
  assume one: "time_scheme_factor ctl = 1"
  with assms(2) have eq: "equal_Scalar ops (time_scheme_factor ctl) 1"
    by simp
  show "crank_nicolson ops m (time_scheme_factor ctl) f M = M"
    using eq by (rule crank_nicolson_keeps)
  show "piso_matrix ops m ctl prm s
          = addM (addTurbulentStress ops (turb s) (U_f s) (F_f s)
                    (div_U ops (U_f s) (F_f s) (const_facet m (rho prm * viscosity prm))))
                 (ddt_U ops (U_f s) (rho prm))"
    using assms(1) by (simp add: piso_matrix_def Let_def crank_nicolson_keeps [OF eq])
  show "diffusion_matrix ops m ctl prm t
          = addM (negM (lap ops (T_f t) (const_facet m (rho prm * DT prm))))
                 (ddt_T ops (T_f t) (rho prm))"
    using assms(1) by (simp add: diffusion_matrix_def Let_def crank_nicolson_keeps [OF eq])
  show "transport_matrix ops m ctl prm t
          = addM (subM (div_T ops (T_f t) (flx ops (fscale (rho prm) (U_given t)))
                          (const_facet m (rho prm * DT prm)))
                       (lap ops (T_f t) (const_facet m (rho prm * DT prm))))
                 (ddt_T ops (T_f t) (rho prm))"
    using assms(1) by (simp add: transport_matrix_def Let_def crank_nicolson_keeps [OF eq])
qed

text \<open>
  Witness for C5: transient controls with \<open>\<theta> = 1/2\<close> and exact equality for \<^verbatim>\<open>equal\<close>;
  the example system with the field \<^verbatim>\<open>[1, 1]\<close>, for which \<^verbatim>\<open>M\<cdot>\<phi> = [1, 1]\<close>, becomes
  \<^verbatim>\<open>ap = [1, 2]\<close>, \<^verbatim>\<open>an = [(1/2, 3/2)]\<close>, \<^verbatim>\<open>Su = [0, 0]\<close>.
\<close>

theorem crank_nicolson_rewrite_witness:
  "\<not> Steady (example_controls TRANSIENT)
   \<and> time_scheme_factor (example_controls TRANSIENT) = 1 / 2
   \<and> equal_Scalar example_ops (1 / 2) 1 = ((1 / 2 :: real) = 1)
   \<and> crank_nicolson example_ops example_mesh (1 / 2) [1, 1] example_matrix
       = \<lparr>ap = [1, 2], an = [(1 / 2, 3 / 2)], Su = [0, 0]\<rparr>"
proof -
  have a: "\<not> Steady (example_controls TRANSIENT)"
    by (simp add: Steady_def example_controls_def)
  have t: "time_scheme_factor (example_controls TRANSIENT) = 1 / 2"
    by (simp add: example_controls_def)
  have b: "equal_Scalar example_ops (time_scheme_factor (example_controls TRANSIENT)) 1
           = (time_scheme_factor (example_controls TRANSIENT) = 1)"
    by (simp add: example_ops_def)
  have c: "cn_rewrite_spec example_mesh (1 / 2) [1, 1] example_matrix
           = \<lparr>ap = [1, 2], an = [(1 / 2, 3 / 2)], Su = [0, 0]\<rparr>"
    by (simp add: cn_rewrite_spec_def mulM_def example_mesh_def example_matrix_def
        off_diag_def fsub_def fmul_s_def fscale_def cell_def)
  from crank_nicolson_rewrite [OF a b, of example_mesh "[1, 1]" example_matrix
      example_params example_state "\<lparr>T_f = [1, 2], U_given = [], written_T = []\<rparr>"]
  have "crank_nicolson example_ops example_mesh (1 / 2) [1, 1] example_matrix
        = cn_rewrite_spec example_mesh (1 / 2) [1, 1] example_matrix"
    by (simp add: t)
  moreover have "equal_Scalar example_ops (1 / 2) 1 = ((1 / 2 :: real) = 1)"
    by (simp add: example_ops_def)
  ultimately show ?thesis
    using a t c by simp
qed

section \<open>The wall distance\<close>

lemma string_find_Some_iff:
  "string_find s pat \<noteq> None \<longleftrightarrow> (\<exists>xs ys. s = xs @ pat @ ys)"
proof (induction s)
  case Nil
  then show ?case by auto
next
  case (Cons c cs)
  show ?case
  proof (cases "take (length pat) (c # cs) = pat")
    case True
    then have "c # cs = [] @ pat @ drop (length pat) (c # cs)"
      by (metis append_Nil append_take_drop_id)
    then have "\<exists>xs ys. c # cs = xs @ pat @ ys"
      by blast
    with True show ?thesis by simp
  next
    case False
    have "(\<exists>xs ys. c # cs = xs @ pat @ ys) \<longleftrightarrow> (\<exists>xs ys. cs = xs @ pat @ ys)"
    proof
      assume "\<exists>xs ys. c # cs = xs @ pat @ ys"
      then obtain xs ys where e: "c # cs = xs @ pat @ ys" by blast
      show "\<exists>xs ys. cs = xs @ pat @ ys"
      proof (cases xs)
        case Nil
        with e have "take (length pat) (c # cs) = pat" by simp
        with False show ?thesis by simp
      next
        case (Cons x xs')
        with e have "cs = xs' @ pat @ ys" by simp
        then show ?thesis by blast
      qed
    next
      assume "\<exists>xs ys. cs = xs @ pat @ ys"
      then obtain xs ys where "cs = xs @ pat @ ys" by blast
      then have "c # cs = (c # xs) @ pat @ ys" by simp
      then show "\<exists>xs ys. c # cs = xs @ pat @ ys" by blast
    qed
    with False Cons show ?thesis by simp
  qed
qed

lemma walldist_bc_kind:
  "walldist_bc name =
     \<lparr>bname = name,
      cname = (if \<exists>xs ys. name = xs @ ''WALL'' @ ys then ''DIRICHLET'' else ''NEUMANN''),
      bc_value = 0\<rparr>"
  using string_find_Some_iff [of name "''WALL''"] by (simp add: walldist_bc_def)

lemma walldist_bcs_append:
  "fold (\<lambda>name bcs. bcs @ [walldist_bc name]) names bcs = bcs @ map walldist_bc names"
  by (induction names arbitrary: bcs) simp_all

lemma mag_square: "(mag v)\<^sup>2 = dot v v"
proof (cases v)
  case (Vector a b c)
  have "0 \<le> a * a + b * b + c * c"
    by (simp add: add_nonneg_nonneg)
  with Vector show ?thesis by (simp add: mag_def)
qed

lemma yWall_rows:
  "fsub (map sqrt (fadd (map (\<lambda>v. dot v v) g) (fscale 2 phi))) (map mag g)
     = map2 (\<lambda>v x. sqrt ((mag v)\<^sup>2 + 2 * x) - mag v) g phi"
  unfolding fsub_def fadd_def fscale_def
proof (induction g arbitrary: phi)
  case Nil
  then show ?case by simp
next
  case (Cons v g)
  then show ?case by (cases phi) (simp_all add: mag_square)
qed

text \<open>
  C6. The wall-distance driver gives every boundary patch a condition on \<open>\<phi>\<close>: the
  value 0 of kind \<^verbatim>\<open>DIRICHLET\<close> when the patch name contains \<^verbatim>\<open>WALL\<close>, and the
  gradient 0 of kind \<^verbatim>\<open>NEUMANN\<close> otherwise; it solves \<^verbatim>\<open>lap(phi, 1) = -cV\<close> from the
  zero field, and recovers the wall distance in every cell as
  \<^verbatim>\<open>sqrt(|g|^2 + 2 phi) - |g|\<close> from the gradient \<^verbatim>\<open>g\<close> of the solution.
\<close>

theorem calc_walldist_spec:
  "(let r = calc_walldist opsf m reg;
        ops = opsf (wd_AllBConditions r);
        phi0 = updateExplicitBCs_S ops True True (replicate (length (cV m)) 0)
    in wd_AllBConditions r = reg @ map walldist_bc (gBoundaries m)
       \<and> wd_phi r = Solve_S ops (eqn (lap ops phi0 (const_facet m 1)) (fneg (cV m))) phi0
       \<and> wd_g r = FillBoundaryValues ops (grad ops (wd_phi r))
       \<and> yWall r = map2 (\<lambda>g x. sqrt ((mag g)\<^sup>2 + 2 * x) - mag g) (wd_g r) (wd_phi r))
   \<and> (\<forall>name. walldist_bc name =
         \<lparr>bname = name,
          cname = (if \<exists>xs ys. name = xs @ ''WALL'' @ ys then ''DIRICHLET'' else ''NEUMANN''),
          bc_value = 0\<rparr>)
   \<and> const_facet m 1 = replicate (nFacets m) 1"
proof -
  have "wd_AllBConditions (calc_walldist opsf m reg) = reg @ map walldist_bc (gBoundaries m)"
    by (simp add: calc_walldist_def Let_def walldist_bcs_def walldist_bcs_append)
  moreover have "wd_phi (calc_walldist opsf m reg)
      = (let ops = opsf (wd_AllBConditions (calc_walldist opsf m reg));
             phi0 = updateExplicitBCs_S ops True True (replicate (length (cV m)) 0)
         in Solve_S ops (eqn (lap ops phi0 (const_facet m 1)) (fneg (cV m))) phi0)"
    by (simp add: calc_walldist_def Let_def)
  moreover have "wd_g (calc_walldist opsf m reg)
      = FillBoundaryValues (opsf (wd_AllBConditions (calc_walldist opsf m reg)))
          (grad (opsf (wd_AllBConditions (calc_walldist opsf m reg)))
             (wd_phi (calc_walldist opsf m reg)))"
    by (simp add: calc_walldist_def Let_def)
  moreover have "yWall (calc_walldist opsf m reg)
      = map2 (\<lambda>g x. sqrt ((mag g)\<^sup>2 + 2 * x) - mag g)
          (wd_g (calc_walldist opsf m reg)) (wd_phi (calc_walldist opsf m reg))"
    by (simp add: calc_walldist_def Let_def yWall_rows)
  ultimately show ?thesis
    by (simp add: Let_def walldist_bc_kind const_facet_def)
qed

text \<open>
  The example mesh has the patches \<^verbatim>\<open>INLET\<close> and \<^verbatim>\<open>TOP_WALL\<close>; a lower-case
  \<^verbatim>\<open>wall\<close> is not a wall. With \<open>\<phi> = 4\<close> and the gradient \<open>(3, 0, 0)\<close> the distance is
  \<open>sqrt (9 + 8) - 3\<close>.
\<close>

lemma calc_walldist_example:
  "wd_AllBConditions (calc_walldist (\<lambda>b. example_ops) example_mesh [])
     = [\<lparr>bname = ''INLET'', cname = ''NEUMANN'', bc_value = 0\<rparr>,
        \<lparr>bname = ''TOP_WALL'', cname = ''DIRICHLET'', bc_value = 0\<rparr>]
   \<and> cname (walldist_bc ''top_wall'') = ''NEUMANN''
   \<and> wd_phi (calc_walldist (\<lambda>b. example_ops) example_mesh []) = [- 1, - 1]"
  by (simp add: calc_walldist_def Let_def walldist_bcs_def walldist_bc_def example_mesh_def
      example_ops_def eqn_def fadd_def fneg_def)

section \<open>Potential flow\<close>

lemma zero_loop:
  "for_lt i n (\<lambda>i (U, p). (U[i := z], p[i := y])) (U, p)
     = (map (\<lambda>c. if i \<le> c \<and> c < n then z else U ! c) [0..<length U],
        map (\<lambda>c. if i \<le> c \<and> c < n then y else p ! c) [0..<length p])"
proof (induction "n - i" arbitrary: i U p)
  case 0
  then have ge: "\<not> i < n"
    by simp
  have f: "(\<lambda>c. if i \<le> c \<and> c < n then w else xs ! c) = (\<lambda>c. xs ! c)"
    for w :: 'c and xs
    using ge by (intro ext) auto
  from ge show ?case
    by (subst for_lt.simps) (simp add: f map_nth)
next
  case (Suc k)
  then have lt: "i < n" and k: "k = n - Suc i" by simp_all
  have u: "map (\<lambda>c. if Suc i \<le> c \<and> c < n then w else xs[i := w] ! c) [0..<length xs]
           = map (\<lambda>c. if i \<le> c \<and> c < n then w else xs ! c) [0..<length xs]" for w :: 'c and xs
    using lt by (auto simp: nth_list_update)
  from lt show ?case
    by (subst for_lt.simps) (simp add: Suc.hyps(1) [OF k] u)
qed

lemma zero_internal_eq:
  "zero_internal m (U, p)
     = (map (\<lambda>c. if c < gBCellsStart m then Vector 0 0 0 else U ! c) [0..<length U],
        map (\<lambda>c. if c < gBCellsStart m then 0 else p ! c) [0..<length p])"
  by (simp add: zero_internal_def zero_loop)


lemma length_zero_internal:
  "length (fst (zero_internal m (U, p))) = length U"
  "length (snd (zero_internal m (U, p))) = length p"
  by (simp_all add: zero_internal_eq)







section \<open>LES statistics\<close>

lemma les_sums_for_le:
  assumes "\<And>k s. les_sums (body k s) = les_sums s"
  shows "les_sums (for_le i n body s) = les_sums s"
  using assms
proof (induction i n body s rule: for_le.induct)
  case (1 i n body s)
  then show ?case
    by (subst for_le.simps) simp
qed

lemma les_sums_for_lt:
  assumes "\<And>k s. les_sums (body k s) = les_sums s"
  shows "les_sums (for_lt i n body s) = les_sums s"
  using assms
proof (induction i n body s rule: for_lt.induct)
  case (1 i n body s)
  then show ?case
    by (subst for_lt.simps) simp
qed

lemma les_sums_piso_pass: "les_sums (piso_pass ops m ctl prm M api s) = les_sums s"
  by (simp add: piso_pass_def piso_correct_def piso_pressure_def les_sums_def Let_def)

lemma les_sums_piso_body: "les_sums (piso_body ops m ctl prm s) = les_sums s"
proof -
  have "les_sums (for_lt 0 (n_PISO prm) (\<lambda>j. piso_pass ops m ctl prm M api) s1) = les_sums s1"
    for M api s1
    by (rule les_sums_for_lt) (rule les_sums_piso_pass)
  then have "Uavg (for_lt 0 (n_PISO prm) (\<lambda>j. piso_pass ops m ctl prm M api) s1) = Uavg s1
    \<and> Ustd (for_lt 0 (n_PISO prm) (\<lambda>j. piso_pass ops m ctl prm M api) s1) = Ustd s1
    \<and> pavg (for_lt 0 (n_PISO prm) (\<lambda>j. piso_pass ops m ctl prm M api) s1) = pavg s1
    \<and> pstd (for_lt 0 (n_PISO prm) (\<lambda>j. piso_pass ops m ctl prm M api) s1) = pstd s1"
    for M api s1
    by (simp add: les_sums_def)
  then show ?thesis
    by (simp add: piso_body_def les_sums_def Let_def)
qed

lemma les_sums_deferred:
  "les_sums (for_le 0 (n_DEFERRED prm) (\<lambda>n. piso_body ops m ctl prm) s) = les_sums s"
  by (rule les_sums_for_le) (rule les_sums_piso_body)

lemma piso_write_keeps:
  "les_sums (piso_write ctl prm i s) = les_sums s
   \<and> U_f (piso_write ctl prm i s) = U_f s \<and> p_f (piso_write ctl prm i s) = p_f s"
  by (simp add: piso_write_def write_fields_def les_emit_def les_sums_def Let_def)

lemma mean_square_real:
  fixes S1 S2 n :: real
  assumes "n \<noteq> 0"
  shows "(S2 + (S1 /\<^sub>R n) * (n *\<^sub>R (S1 /\<^sub>R n) - 2 *\<^sub>R S1)) /\<^sub>R n
           = (S2 - 2 * (S1 / n) * S1 + n * (S1 / n)\<^sup>2) / n"
    and "(S2 - 2 * (S1 / n) * S1 + n * (S1 / n)\<^sup>2) / n = S2 / n - (S1 / n)\<^sup>2"
  using assms by (simp_all add: field_simps power2_eq_square)

lemma mean_square_Vector:
  fixes S1 S2 :: Vector and n :: real
  assumes "n \<noteq> 0"
  shows "(S2 + (S1 /\<^sub>R n) * (n *\<^sub>R (S1 /\<^sub>R n) - 2 *\<^sub>R S1)) /\<^sub>R n
           = (S2 - 2 *\<^sub>R ((S1 /\<^sub>R n) * S1) + n *\<^sub>R ((S1 /\<^sub>R n) * (S1 /\<^sub>R n))) /\<^sub>R n"
    and "(S2 - 2 *\<^sub>R ((S1 /\<^sub>R n) * S1) + n *\<^sub>R ((S1 /\<^sub>R n) * (S1 /\<^sub>R n))) /\<^sub>R n
           = S2 /\<^sub>R n - (S1 /\<^sub>R n) * (S1 /\<^sub>R n)"
  using assms by (cases S1; cases S2; simp add: field_simps)+

lemma std_rows:
  "map g (map d (map2 pl Ss (map2 ti (map e Sa) (map2 mi (map sc (map e Sa)) (map tw Sa)))))
     = map2 (\<lambda>S2 S1. g (d (pl S2 (ti (e S1) (mi (sc (e S1)) (tw S1)))))) Ss Sa"
proof (induction Ss arbitrary: Sa)
  case Nil
  then show ?case by simp
next
  case (Cons x Ss)
  then show ?case by (cases Sa) simp_all
qed

lemma std_rows_real:
  fixes Ss Sa :: "Scalar list"
  assumes "n \<noteq> 0"
  shows "map sqrt (fdiv (fadd Ss (fmul (fdiv Sa n) (fsub (fscale n (fdiv Sa n)) (fscale 2 Sa)))) n)
     = map2 (\<lambda>S2 S1. sqrt ((S2 - 2 * (S1 / n) * S1 + n * (S1 / n)\<^sup>2) / n)) Ss Sa"
  unfolding fdiv_def fadd_def fmul_def fsub_def fscale_def
  by (simp only: std_rows mean_square_real(1) [OF assms])

lemma std_rows_Vector:
  fixes Ss Sa :: "Vector list"
  assumes "n \<noteq> 0"
  shows "map sqrtV (fdiv (fadd Ss (fmul (fdiv Sa n) (fsub (fscale n (fdiv Sa n)) (fscale 2 Sa)))) n)
     = map2 (\<lambda>S2 S1. sqrtV ((S2 - 2 *\<^sub>R ((S1 /\<^sub>R n) * S1) + n *\<^sub>R ((S1 /\<^sub>R n) * (S1 /\<^sub>R n))) /\<^sub>R n))
         Ss Sa"
  unfolding fdiv_def fadd_def fmul_def fsub_def fscale_def
  by (simp only: std_rows mean_square_Vector(1) [OF assms])

text \<open>
  C9. With \<^verbatim>\<open>les_average\<close> on, a time step adds \<^verbatim>\<open>U\<close>, \<^verbatim>\<open>p\<close>, \<^verbatim>\<open>U*U\<close> and \<^verbatim>\<open>p*p\<close> to
  the four running sums once, after the deferred-correction loop and before the
  write. At a write checkpoint of step \<^verbatim>\<open>n > 0\<close> the fields written under \<^verbatim>\<open>Uavg\<close>
  and \<^verbatim>\<open>pavg\<close> are the sums divided by \<^verbatim>\<open>n\<close>, and those written under \<^verbatim>\<open>Ustd\<close> and
  \<^verbatim>\<open>pstd\<close> are \<^verbatim>\<open>sqrt((S2 - 2 mean S1 + n mean^2) / n)\<close>, entry by entry and component
  by component, which is \<^verbatim>\<open>sqrt(S2 / n - mean^2)\<close>; after the write the four sums are
  what they were before it.
\<close>

theorem les_statistics:
  assumes "LESaverage prm \<noteq> 0"
  shows "piso_step ops m ctl prm i s
           = piso_write ctl prm i
               (les_accumulate (for_le 0 (n_DEFERRED prm) (\<lambda>n. piso_body ops m ctl prm) s))
       \<and> (let s1 = piso_step ops m ctl prm i s
          in Uavg s1 = fadd (Uavg s) (U_f s1)
             \<and> pavg s1 = fadd (pavg s) (p_f s1)
             \<and> Ustd s1 = fadd (Ustd s) (fmul (U_f s1) (U_f s1))
             \<and> pstd s1 = fadd (pstd s) (fmul (p_f s1) (p_f s1)))
       \<and> (0 < i \<and> i mod write_interval ctl = 0 \<longrightarrow>
           (let n = real i; s' = piso_write ctl prm i s
            in written s' = written s @
                 [\<lparr>w_step = i div write_interval ctl, w_U = U_f s, w_p = p_f s,
                   w_Uavg = map (\<lambda>S1. S1 /\<^sub>R n) (Uavg s),
                   w_Ustd = map2 (\<lambda>S2 S1. sqrtV ((S2 - 2 *\<^sub>R ((S1 /\<^sub>R n) * S1)
                                     + n *\<^sub>R ((S1 /\<^sub>R n) * (S1 /\<^sub>R n))) /\<^sub>R n))
                              (Ustd s) (Uavg s),
                   w_pavg = map (\<lambda>S1. S1 / n) (pavg s),
                   w_pstd = map2 (\<lambda>S2 S1. sqrt ((S2 - 2 * (S1 / n) * S1 + n * (S1 / n)\<^sup>2) / n))
                              (pstd s) (pavg s)\<rparr>]
               \<and> map2 (\<lambda>S2 S1. sqrtV ((S2 - 2 *\<^sub>R ((S1 /\<^sub>R n) * S1)
                          + n *\<^sub>R ((S1 /\<^sub>R n) * (S1 /\<^sub>R n))) /\<^sub>R n)) (Ustd s) (Uavg s)
                   = map2 (\<lambda>S2 S1. sqrtV (S2 /\<^sub>R n - (S1 /\<^sub>R n) * (S1 /\<^sub>R n))) (Ustd s) (Uavg s)
               \<and> map2 (\<lambda>S2 S1. sqrt ((S2 - 2 * (S1 / n) * S1 + n * (S1 / n)\<^sup>2) / n))
                     (pstd s) (pavg s)
                   = map2 (\<lambda>S2 S1. sqrt (S2 / n - (S1 / n)\<^sup>2)) (pstd s) (pavg s)
               \<and> Uavg s' = Uavg s \<and> Ustd s' = Ustd s
               \<and> pavg s' = pavg s \<and> pstd s' = pstd s))"
proof -
  let ?s0 = "for_le 0 (n_DEFERRED prm) (\<lambda>n. piso_body ops m ctl prm) s"
  have step: "piso_step ops m ctl prm i s = piso_write ctl prm i (les_accumulate ?s0)"
    using assms by (simp add: piso_step_def Let_def)
  have keep: "les_sums ?s0 = les_sums s"
    by (rule les_sums_deferred)
  have w: "les_sums (piso_write ctl prm i (les_accumulate ?s0)) = les_sums (les_accumulate ?s0)"
    "U_f (piso_write ctl prm i (les_accumulate ?s0)) = U_f ?s0"
    "p_f (piso_write ctl prm i (les_accumulate ?s0)) = p_f ?s0"
    using piso_write_keeps [of ctl prm i "les_accumulate ?s0"]
    by (simp_all add: les_accumulate_def)
  have acc: "let s1 = piso_step ops m ctl prm i s
          in Uavg s1 = fadd (Uavg s) (U_f s1)
             \<and> pavg s1 = fadd (pavg s) (p_f s1)
             \<and> Ustd s1 = fadd (Ustd s) (fmul (U_f s1) (U_f s1))
             \<and> pstd s1 = fadd (pstd s) (fmul (p_f s1) (p_f s1))"
    using keep w unfolding step Let_def
    by (simp add: les_sums_def les_accumulate_def)
  have emit: "let n = real i; s' = piso_write ctl prm i s
            in written s' = written s @
                 [\<lparr>w_step = i div write_interval ctl, w_U = U_f s, w_p = p_f s,
                   w_Uavg = map (\<lambda>S1. S1 /\<^sub>R n) (Uavg s),
                   w_Ustd = map2 (\<lambda>S2 S1. sqrtV ((S2 - 2 *\<^sub>R ((S1 /\<^sub>R n) * S1)
                                     + n *\<^sub>R ((S1 /\<^sub>R n) * (S1 /\<^sub>R n))) /\<^sub>R n))
                              (Ustd s) (Uavg s),
                   w_pavg = map (\<lambda>S1. S1 / n) (pavg s),
                   w_pstd = map2 (\<lambda>S2 S1. sqrt ((S2 - 2 * (S1 / n) * S1 + n * (S1 / n)\<^sup>2) / n))
                              (pstd s) (pavg s)\<rparr>]
               \<and> map2 (\<lambda>S2 S1. sqrtV ((S2 - 2 *\<^sub>R ((S1 /\<^sub>R n) * S1)
                          + n *\<^sub>R ((S1 /\<^sub>R n) * (S1 /\<^sub>R n))) /\<^sub>R n)) (Ustd s) (Uavg s)
                   = map2 (\<lambda>S2 S1. sqrtV (S2 /\<^sub>R n - (S1 /\<^sub>R n) * (S1 /\<^sub>R n))) (Ustd s) (Uavg s)
               \<and> map2 (\<lambda>S2 S1. sqrt ((S2 - 2 * (S1 / n) * S1 + n * (S1 / n)\<^sup>2) / n))
                     (pstd s) (pavg s)
                   = map2 (\<lambda>S2 S1. sqrt (S2 / n - (S1 / n)\<^sup>2)) (pstd s) (pavg s)
               \<and> Uavg s' = Uavg s \<and> Ustd s' = Ustd s
               \<and> pavg s' = pavg s \<and> pstd s' = pstd s"
    if pc: "0 < i \<and> i mod write_interval ctl = 0"
  proof -
    from pc have nz: "real i \<noteq> 0" and cp: "i mod write_interval ctl = 0"
      by simp_all
    have mean_p: "fdiv (pavg s) (real i) = map (\<lambda>S1. S1 / real i) (pavg s)"
      by (simp add: fdiv_def divide_inverse mult.commute)
    have wr: "written (piso_write ctl prm i s) = written s @
        [\<lparr>w_step = i div write_interval ctl, w_U = U_f s, w_p = p_f s,
          w_Uavg = fdiv (Uavg s) (real i),
          w_Ustd = map sqrtV (fdiv (fadd (Ustd s) (fmul (fdiv (Uavg s) (real i))
                     (fsub (fscale (real i) (fdiv (Uavg s) (real i))) (fscale 2 (Uavg s)))))
                     (real i)),
          w_pavg = fdiv (pavg s) (real i),
          w_pstd = map sqrt (fdiv (fadd (pstd s) (fmul (fdiv (pavg s) (real i))
                     (fsub (fscale (real i) (fdiv (pavg s) (real i))) (fscale 2 (pavg s)))))
                     (real i))\<rparr>]"
      using assms cp by (simp add: piso_write_def write_fields_def les_emit_def Let_def)
    have keep': "Uavg (piso_write ctl prm i s) = Uavg s \<and> Ustd (piso_write ctl prm i s) = Ustd s
        \<and> pavg (piso_write ctl prm i s) = pavg s \<and> pstd (piso_write ctl prm i s) = pstd s"
      using piso_write_keeps [of ctl prm i s] by (simp add: les_sums_def)
    have closed_U: "(\<lambda>S2 S1. sqrtV ((S2 - 2 *\<^sub>R ((S1 /\<^sub>R real i) * S1)
                          + real i *\<^sub>R ((S1 /\<^sub>R real i) * (S1 /\<^sub>R real i))) /\<^sub>R real i))
        = (\<lambda>S2 S1. sqrtV (S2 /\<^sub>R real i - (S1 /\<^sub>R real i) * (S1 /\<^sub>R real i)))"
      by (simp only: mean_square_Vector(2) [OF nz])
    have closed_p: "(\<lambda>S2 S1. sqrt ((S2 - 2 * (S1 / real i) * S1 + real i * (S1 / real i)\<^sup>2) / real i))
        = (\<lambda>S2 S1. sqrt (S2 / real i - (S1 / real i)\<^sup>2))"
      by (simp only: mean_square_real(2) [OF nz])
    show ?thesis
      unfolding Let_def wr std_rows_real [OF nz] std_rows_Vector [OF nz]
      unfolding closed_U closed_p mean_p
      using keep' by (simp add: fdiv_def)
  qed
  show ?thesis
    by (intro conjI impI) (rule step, rule acc, erule emit)
qed

text \<open>
  Witness for C9: the checkpoint of step 2 with the sums \<^verbatim>\<open>Uavg = [(2,4,0), (0,0,0)]\<close>,
  \<^verbatim>\<open>Ustd = [(4,8,0), (0,0,0)]\<close>, \<^verbatim>\<open>pavg = [2, 0]\<close>, \<^verbatim>\<open>pstd = [4, 0]\<close> writes the means
  \<^verbatim>\<open>[(1,2,0), (0,0,0)]\<close> and \<^verbatim>\<open>[1, 0]\<close> and the deviations \<^verbatim>\<open>[(1,0,0), (0,0,0)]\<close> and
  \<^verbatim>\<open>[1, 0]\<close>, and leaves the sums as they were.
\<close>

theorem les_statistics_witness:
  "LESaverage example_params \<noteq> 0
   \<and> (0 :: nat) < 2
   \<and> 2 mod write_interval (example_controls TRANSIENT) = 0
   \<and> written (piso_write (example_controls TRANSIENT) example_params 2 example_state)
       = [\<lparr>w_step = 1, w_U = [Vector 0 0 0, Vector 2 0 0], w_p = [1, 3],
           w_Uavg = [Vector 1 2 0, Vector 0 0 0], w_Ustd = [Vector 1 0 0, Vector 0 0 0],
           w_pavg = [1, 0], w_pstd = [1, 0]\<rparr>]
   \<and> Uavg (piso_write (example_controls TRANSIENT) example_params 2 example_state)
       = [Vector 2 4 0, Vector 0 0 0]
   \<and> Ustd (piso_write (example_controls TRANSIENT) example_params 2 example_state)
       = [Vector 4 8 0, Vector 0 0 0]"
proof -
  have h: "LESaverage example_params \<noteq> 0"
    by (simp add: example_params_def)
  have c: "(0 :: nat) < 2 \<and> 2 mod write_interval (example_controls TRANSIENT) = 0"
    by (simp add: example_controls_def)
  note t = les_statistics [OF h, of example_ops example_mesh "example_controls TRANSIENT" 2
      example_state, THEN conjunct2, THEN conjunct2, rule_format, OF c]
  from t have "written (piso_write (example_controls TRANSIENT) example_params 2 example_state)
       = [\<lparr>w_step = 1, w_U = [Vector 0 0 0, Vector 2 0 0], w_p = [1, 3],
           w_Uavg = [Vector 1 2 0, Vector 0 0 0], w_Ustd = [Vector 1 0 0, Vector 0 0 0],
           w_pavg = [1, 0], w_pstd = [1, 0]\<rparr>]
   \<and> Uavg (piso_write (example_controls TRANSIENT) example_params 2 example_state)
       = [Vector 2 4 0, Vector 0 0 0]
   \<and> Ustd (piso_write (example_controls TRANSIENT) example_params 2 example_state)
       = [Vector 4 8 0, Vector 0 0 0]"
    by (simp add: Let_def example_state_def example_controls_def power2_eq_square
        zero_Vector_def)
  with h c show ?thesis
    by simp
qed

end
